theory Spec2Isabelle
  imports Complex_Main "HOL-Library.Multiset" "HOL-Library.Sublist"
begin

section \<open>JavaScript values\<close>

text \<open>
  The handlers of \<^verbatim>\<open>server.mjs\<close> and \<^verbatim>\<open>server-persistent.mjs\<close> test request
  and response fields for truthiness and walk parsed JSON with optional chaining, so
  the values they see are modelled as they are at run time. A number is the exact value
  of a finite double, an infinity (JSON.parse gives one on overflow) or NaN; both zeros
  are \<open>Finite 0\<close>. A string is the list of its bytes in UTF-8. An object is the list
  of its own properties; JSON.parse keeps one value per key, and a lookup takes the
  first entry of a key.
\<close>

datatype jsnum = Finite rat | PosInfinity | NegInfinity | NaN

datatype js =
    JUndefined
  | JNull
  | JBool bool
  | JNum jsnum
  | JStr string
  | JArr "js list"
  | JObj "(string \<times> js) list"

type_synonym bytes = "char list"

text \<open>ToBoolean: what \<^verbatim>\<open>!v\<close>, \<^verbatim>\<open>v || w\<close> and \<^verbatim>\<open>if (v)\<close> test.\<close>

fun truthy :: "js \<Rightarrow> bool" where
  "truthy JUndefined = False"
| "truthy JNull = False"
| "truthy (JBool b) = b"
| "truthy (JNum n) = (n \<noteq> Finite 0 \<and> n \<noteq> NaN)"
| "truthy (JStr s) = (s \<noteq> [])"
| "truthy (JArr xs) = True"
| "truthy (JObj kvs) = True"

text \<open>
  \<^verbatim>\<open>v.name\<close> for the property names the handlers read (prompt, candidates, content,
  parts, inline_data, inlineData, data), none of which a prototype defines: \<open>None\<close> is
  the TypeError of reading a property of null or undefined, \<open>Some JUndefined\<close> an
  absent property. Only an object has such a property of its own.
\<close>

fun get_prop :: "js \<Rightarrow> string \<Rightarrow> js option" where
  "get_prop JUndefined k = None"
| "get_prop JNull k = None"
| "get_prop (JObj kvs) k = (case map_of kvs k of None \<Rightarrow> Some JUndefined | Some v \<Rightarrow> Some v)"
| "get_prop v k = Some JUndefined"

text \<open>
  \<^verbatim>\<open>v[0]\<close>: the first element of an array, the first character of a string, the
  property \<^verbatim>\<open>"0"\<close> of an object.
\<close>

fun get_index0 :: "js \<Rightarrow> js option" where
  "get_index0 JUndefined = None"
| "get_index0 JNull = None"
| "get_index0 (JArr xs) = (case xs of [] \<Rightarrow> Some JUndefined | x # _ \<Rightarrow> Some x)"
| "get_index0 (JStr s) = (case s of [] \<Rightarrow> Some JUndefined | c # _ \<Rightarrow> Some (JStr [c]))"
| "get_index0 (JObj kvs) = (case map_of kvs ''0'' of None \<Rightarrow> Some JUndefined | Some v \<Rightarrow> Some v)"
| "get_index0 v = Some JUndefined"

text \<open>Optional chaining \<^verbatim>\<open>v?.name\<close> and \<^verbatim>\<open>v?.[0]\<close>: undefined when \<open>v\<close> is null or undefined.\<close>

definition opt_prop :: "js \<Rightarrow> string \<Rightarrow> js" where
  "opt_prop v k = (case get_prop v k of None \<Rightarrow> JUndefined | Some w \<Rightarrow> w)"

definition opt_index0 :: "js \<Rightarrow> js" where
  "opt_index0 v = (case get_index0 v of None \<Rightarrow> JUndefined | Some w \<Rightarrow> w)"

section \<open>The Generation Client's search for the image payload\<close>

text \<open>
  \<^verbatim>\<open>
  let b64;
  try {
      const parts = data.candidates?.[0]?.content?.parts || [];
      for (const p of parts) {
          if (p.inline_data?.data) { b64 = p.inline_data.data; break; }
          if (p.inlineData?.data) { b64 = p.inlineData.data; break; }
      }
  } catch { }
  \<close>
  \<open>None\<close> stands for a thrown TypeError, which the empty \<^verbatim>\<open>catch\<close> swallows with
  \<^verbatim>\<open>b64\<close> still undefined.
\<close>

text \<open>One part: the payload it carries, \<open>Some None\<close> when it carries none.\<close>

definition part_payload :: "js \<Rightarrow> js option option" where
  "part_payload p =
     (case get_prop p ''inline_data'' of
        None \<Rightarrow> None
      | Some snake \<Rightarrow>
          if truthy (opt_prop snake ''data'') then Some (Some (opt_prop snake ''data''))
          else (case get_prop p ''inlineData'' of
                  None \<Rightarrow> None
                | Some camel \<Rightarrow>
                    if truthy (opt_prop camel ''data'') then Some (Some (opt_prop camel ''data''))
                    else Some None))"

text \<open>The loop: stops at the first payload, and at the first part that throws.\<close>

fun scan_parts :: "js list \<Rightarrow> js option" where
  "scan_parts [] = None"
| "scan_parts (p # ps) =
     (case part_payload p of
        None \<Rightarrow> None
      | Some (Some b64) \<Rightarrow> Some b64
      | Some None \<Rightarrow> scan_parts ps)"

text \<open>
  \<^verbatim>\<open>data.candidates?.[0]?.content?.parts || []\<close>; \<open>None\<close> when \<^verbatim>\<open>data\<close> is null.
\<close>

definition response_parts :: "js \<Rightarrow> js option" where
  "response_parts data =
     (case get_prop data ''candidates'' of
        None \<Rightarrow> None
      | Some cands \<Rightarrow>
          (let parts = opt_prop (opt_prop (opt_index0 cands) ''content'') ''parts''
           in Some (if truthy parts then parts else JArr [])))"

text \<open>
  \<^verbatim>\<open>for (const p of parts)\<close>: an array yields its elements and a string its characters
  (each a string, which carries no payload, so that the grouping of bytes into
  characters does not matter); any other truthy value is not iterable and throws.
\<close>

definition find_b64 :: "js \<Rightarrow> js option" where
  "find_b64 data =
     (case response_parts data of
        None \<Rightarrow> None
      | Some (JArr ps) \<Rightarrow> scan_parts ps
      | Some (JStr s) \<Rightarrow> scan_parts (map (\<lambda>c. JStr [c]) s)
      | Some _ \<Rightarrow> None)"

section \<open>The runtime, the configuration and the outside world\<close>

text \<open>
  The library functions the handlers call are parameters of the model: Node's
  \<^verbatim>\<open>Buffer.from(v, 'base64')\<close> and \<^verbatim>\<open>buf.toString('base64')\<close>, the conversions between
  numbers and strings of the language, \<^verbatim>\<open>Date.prototype.toISOString\<close> and the text
  that the PostgreSQL client sends for a query parameter. What is known of each for
  strings is written into the model below; no theorem assumes more of them than its
  statement says.
\<close>

record runtime =
  b64_decode :: "string \<Rightarrow> bytes"
  b64_encode :: "bytes \<Rightarrow> string"
  buffer_from_other :: "js \<Rightarrow> bytes option"
  to_number :: "string \<Rightarrow> jsnum"
  number_to_string :: "jsnum \<Rightarrow> string"
  to_string_other :: "js \<Rightarrow> string"
  pg_text_other :: "js \<Rightarrow> string"
  to_iso :: "int \<Rightarrow> string"

text \<open>
  \<^verbatim>\<open>Buffer.from(v, 'base64')\<close>: a string is decoded and never throws; for any other
  value \<open>None\<close> is the TypeError.
\<close>

definition buffer_from :: "runtime \<Rightarrow> js \<Rightarrow> bytes option" where
  "buffer_from rt v = (case v of JStr s \<Rightarrow> Some (b64_decode rt s) | _ \<Rightarrow> buffer_from_other rt v)"

text \<open>A value inside a template literal, and as a query parameter: a string stands for itself.\<close>

definition to_string :: "runtime \<Rightarrow> js \<Rightarrow> string" where
  "to_string rt v = (case v of JStr s \<Rightarrow> s | _ \<Rightarrow> to_string_other rt v)"

definition pg_text :: "runtime \<Rightarrow> js \<Rightarrow> string" where
  "pg_text rt v = (case v of JStr s \<Rightarrow> s | _ \<Rightarrow> pg_text_other rt v)"

record config =
  GOOGLE_API_KEY :: "string option"
  MODEL_ID :: string
  BASE_IMAGE_PATH :: string
  GOOGLE_API_BASE :: string

text \<open>\<^verbatim>\<open>process.env.NAME || fallback\<close>: an unset and an empty variable both give the fallback.\<close>

definition env_or :: "string option \<Rightarrow> string \<Rightarrow> string" where
  "env_or v fallback = (case v of None \<Rightarrow> fallback | Some s \<Rightarrow> if s = [] then fallback else s)"

definition load_config :: "(string \<Rightarrow> string option) \<Rightarrow> config" where
  "load_config env =
     \<lparr> GOOGLE_API_KEY = env ''GOOGLE_API_KEY'',
       MODEL_ID =
         (let m = env_or (env ''MODEL_ID'') ''gemini-2.5-flash-image-preview''
          in if m = ''gemini-2.5-flash-image'' then ''gemini-2.5-flash-image-preview'' else m),
       BASE_IMAGE_PATH = env_or (env ''BASE_IMAGE_PATH'') ''public/base.png'',
       GOOGLE_API_BASE = env_or (env ''GOOGLE_API_BASE'') ''https://generativelanguage.googleapis.com'' \<rparr>"

text \<open>\<^verbatim>\<open>!GOOGLE_API_KEY\<close> is false exactly for a set, non-empty variable.\<close>

definition key_configured :: "config \<Rightarrow> bool" where
  "key_configured cfg = (case GOOGLE_API_KEY cfg of None \<Rightarrow> False | Some k \<Rightarrow> k \<noteq> [])"

text \<open>The value of the \<^verbatim>\<open>x-goog-api-key\<close> header, sent only when the credential is configured.\<close>

definition api_key_header :: "config \<Rightarrow> string" where
  "api_key_header cfg = (case GOOGLE_API_KEY cfg of None \<Rightarrow> [] | Some k \<Rightarrow> k)"

text \<open>
  What a request meets outside the process. The base image path holds nothing, something
  that \<^verbatim>\<open>readFileSync\<close> cannot read, or a file. The call to the generation endpoint
  throws, answers with a status outside 2xx (and an error text, unless reading it
  throws too), or answers 2xx with a body that parses as JSON or does not.
\<close>

datatype fs_entry = NoEntry | Unreadable | File bytes

datatype upstream_result = FetchThrows | NotOk "string option" | OkBody "js option"

text \<open>
  \<open>fresh_id\<close> is the value of \<^verbatim>\<open>Date.now() + Math.random()\<close> as the request computes
  it, a finite double.
\<close>

record gen_env =
  base_image :: fs_entry
  upstream :: upstream_result
  fresh_id :: rat

section \<open>Responses\<close>

datatype body = JsonBody js | BufferBody bytes | TextBody string | RedirectNotice

record response =
  status :: nat
  headers :: "(string \<times> string) list"
  body :: body

definition json_response :: "nat \<Rightarrow> js \<Rightarrow> response" where
  "json_response code v = \<lparr> status = code, headers = [], body = JsonBody v \<rparr>"

definition error_json :: "string \<Rightarrow> js" where
  "error_json msg = JObj [(''error'', JStr msg)]"

definition png_response :: "bytes \<Rightarrow> response" where
  "png_response b = \<lparr> status = 200, headers = [(''Content-Type'', ''image/png'')], body = BufferBody b \<rparr>"

definition server_error :: response where
  "server_error = json_response 500 (error_json ''server error'')"

section \<open>POST /api/generate up to the decoded image\<close>

text \<open>
  Lines 40 to 110 of \<^verbatim>\<open>server.mjs\<close> and lines 60 to 130 of \<^verbatim>\<open>server-persistent.mjs\<close>
  are the same text: the prompt check, the base image, the fallback without a
  credential, the call to the generation endpoint and the search of its answer. The
  model has them once. Every \<^verbatim>\<open>throw\<close> inside the handler's \<^verbatim>\<open>try\<close> ends in the
  \<^verbatim>\<open>catch\<close> that answers 500.
\<close>

text \<open>The Prompt Compositor: the template literal of lines 57 to 67.\<close>

definition enhancedPrompt :: "string \<Rightarrow> string" where
  "enhancedPrompt prompt =
     ''You are an image editor. You must ALWAYS preserve the purple hat from the base image character. \<newline>''
     @ ''        \<newline>''
     @ ''Instructions:\<newline>''
     @ ''1. Keep the distinctive PURPLE HAT from the base image character\<newline>''
     @ ''2. The character can change poses, expressions, and clothing to fit the situation\<newline>''
     @ ''3. The character can be dressed differently for the new context\<newline>''
     @ ''4. Only modify the background, setting, or environment around the character\<newline>''
     @ ''5. Place the character in the new situation described: '' @ prompt @ ''\<newline>''
     @ ''6. The purple hat must remain visible and distinctive\<newline>''
     @ ''\<newline>''
     @ ''Situation to create: '' @ prompt"

definition requestBody :: "runtime \<Rightarrow> js \<Rightarrow> bytes \<Rightarrow> js" where
  "requestBody rt prompt baseImage =
     JObj [(''contents'',
       JArr [JObj [(''parts'',
         JArr [JObj [(''text'', JStr (enhancedPrompt (to_string rt prompt)))],
               JObj [(''inlineData'',
                 JObj [(''mimeType'', JStr ''image/png''),
                       (''data'', JStr (b64_encode rt baseImage))])]])]])]"

definition generate_url :: "config \<Rightarrow> string" where
  "generate_url cfg = GOOGLE_API_BASE cfg @ ''/v1beta/models/'' @ MODEL_ID cfg @ '':generateContent''"

text \<open>
  The calls a handler makes to the outside, in order: the request to the generation
  endpoint (URL, credential header, JSON body), the write of \<^verbatim>\<open>gallery.json\<close>, and
  the upload to the object store (data URI, public id).
\<close>

datatype effect =
    UpstreamFetch string string js
  | GalleryFileWrite
  | CloudinaryUpload string string

text \<open>
  \<^verbatim>\<open>const { prompt } = req.body || {}\<close>, where the body is what \<^verbatim>\<open>express.json\<close> parsed
  from the request, or undefined.
\<close>

definition prompt_of :: "js \<Rightarrow> js option" where
  "prompt_of req_body = get_prop (if truthy req_body then req_body else JObj []) ''prompt''"

text \<open>
  The first part of the handler either answers the request (\<open>Answered\<close>) or reaches line
  110 with the prompt, the payload \<^verbatim>\<open>b64\<close> and the decoded \<^verbatim>\<open>imgBuffer\<close>.
\<close>

datatype generated = Answered response "effect list" | Decoded js js bytes "effect list"

definition generate_image :: "config \<Rightarrow> runtime \<Rightarrow> ('a gen_env_scheme) \<Rightarrow> js \<Rightarrow> generated" where
  "generate_image cfg rt env req_body =
     (case prompt_of req_body of
        None \<Rightarrow> Answered server_error []
      | Some prompt \<Rightarrow>
          if \<not> truthy prompt then Answered (json_response 400 (error_json ''prompt required'')) []
          else (case base_image env of
              NoEntry \<Rightarrow>
                Answered (json_response 400 (error_json (''Base image missing at '' @ BASE_IMAGE_PATH cfg))) []
            | Unreadable \<Rightarrow> Answered server_error []
            | File baseImage \<Rightarrow>
                if \<not> key_configured cfg then Answered (png_response baseImage) []
                else
                  (let call = UpstreamFetch (generate_url cfg) (api_key_header cfg)
                                (requestBody rt prompt baseImage)
                   in case upstream env of
                        FetchThrows \<Rightarrow> Answered server_error [call]
                      | NotOk None \<Rightarrow> Answered server_error [call]
                      | NotOk (Some errText) \<Rightarrow>
                          Answered (json_response 502
                            (JObj [(''error'', JStr ''Google API error''), (''detail'', JStr errText)])) [call]
                      | OkBody None \<Rightarrow> Answered server_error [call]
                      | OkBody (Some data) \<Rightarrow>
                          (case find_b64 data of
                             None \<Rightarrow>
                               Answered (json_response 502
                                 (JObj [(''error'', JStr ''No image returned''), (''detail'', data)])) [call]
                           | Some b64 \<Rightarrow>
                               (case buffer_from rt b64 of
                                  None \<Rightarrow> Answered server_error [call]
                                | Some imgBuffer \<Rightarrow> Decoded prompt b64 imgBuffer [call])))))"

section \<open>The in-memory server (server.mjs)\<close>

text \<open>
  A stored record, as lines 113 to 118 build it. The timestamp is the instant, in
  milliseconds since the epoch, that the stored ISO string denotes: \<^verbatim>\<open>new Date(s)\<close>
  of a string that \<^verbatim>\<open>toISOString\<close> wrote is that instant again. The state is the
  array \<^verbatim>\<open>generatedImages\<close> and the records that \<^verbatim>\<open>gallery.json\<close> holds (\<open>None\<close>
  before the first write).
\<close>

record image =
  id' :: rat
  prompt :: js
  imageData :: string
  timestamp :: int

record mem_state =
  generatedImages :: "image list"
  gallery_file :: "image list option"

text \<open>\<open>now\<close> is the instant that \<^verbatim>\<open>new Date()\<close> reads at line 117.\<close>

record mem_env = gen_env +
  now :: int
  file_write_ok :: bool

definition generate :: "config \<Rightarrow> runtime \<Rightarrow> mem_env \<Rightarrow> js \<Rightarrow> mem_state \<Rightarrow> response \<times> mem_state \<times> effect list" where
  "generate cfg rt env req_body s =
     (case generate_image cfg rt env req_body of
        Answered res effs \<Rightarrow> (res, s, effs)
      | Decoded prompt_v b64 imgBuffer effs \<Rightarrow>
          (let imageData_v = \<lparr> id' = fresh_id env, prompt = prompt_v,
                               imageData = b64_encode rt imgBuffer, timestamp = now env \<rparr>;
               images = generatedImages s @ [imageData_v]
           in (png_response imgBuffer,
               \<lparr> generatedImages = images,
                 gallery_file = (if file_write_ok env then Some images else gallery_file s) \<rparr>,
               effs @ [GalleryFileWrite])))"

text \<open>
  \<^verbatim>\<open>res.json\<close> of a record: its properties, in the order they were written.
  \<^verbatim>\<open>JSON.stringify\<close> leaves out a property whose value is undefined.
\<close>

definition image_json :: "runtime \<Rightarrow> image \<Rightarrow> js" where
  "image_json rt img =
     JObj ([(''id'', JNum (Finite (id' img)))]
           @ (if prompt img = JUndefined then [] else [(''prompt'', prompt img)])
           @ [(''imageData'', JStr (imageData img)),
              (''timestamp'', JStr (to_iso rt (timestamp img)))])"

text \<open>
  \<^verbatim>\<open>[...generatedImages].sort((a, b) => new Date(b.timestamp) - new Date(a.timestamp))\<close>:
  \<^verbatim>\<open>Array.prototype.sort\<close> is stable, so the result is the stable sort by descending
  timestamp.
\<close>

definition sortedImages :: "mem_state \<Rightarrow> image list" where
  "sortedImages s = sort_key (\<lambda>img. - timestamp img) (generatedImages s)"

definition gallery :: "runtime \<Rightarrow> mem_state \<Rightarrow> response" where
  "gallery rt s = json_response 200 (JArr (map (image_json rt) (sortedImages s)))"

text \<open>
  \<^verbatim>\<open>generatedImages.find(img => img.id == imageId)\<close>: the route parameter is a string,
  and \<^verbatim>\<open>==\<close> compares the number with the string's numeric value.
\<close>

definition find_image :: "runtime \<Rightarrow> mem_state \<Rightarrow> string \<Rightarrow> image option" where
  "find_image rt s imageId = find (\<lambda>img. to_number rt imageId = Finite (id' img)) (generatedImages s)"

definition not_found :: response where
  "not_found = json_response 404 (error_json ''Image not found'')"

definition serve_image :: "runtime \<Rightarrow> mem_state \<Rightarrow> string \<Rightarrow> response" where
  "serve_image rt s imageId =
     (case find_image rt s imageId of
        None \<Rightarrow> not_found
      | Some img \<Rightarrow> png_response (b64_decode rt (imageData img)))"

definition download :: "runtime \<Rightarrow> mem_state \<Rightarrow> string \<Rightarrow> response" where
  "download rt s imageId =
     (case find_image rt s imageId of
        None \<Rightarrow> not_found
      | Some img \<Rightarrow>
          \<lparr> status = 200,
            headers = [(''Content-Type'', ''image/png''),
                       (''Content-Disposition'', ''attachment; filename=\"meme-'' @ imageId @ ''.png\"'')],
            body = BufferBody (b64_decode rt (imageData img)) \<rparr>)"

text \<open>The exposed operations of the in-memory server, and a run of them.\<close>

datatype request = PostGenerate js | GetGallery | GetImage string | GetDownload string

fun handle :: "config \<Rightarrow> runtime \<Rightarrow> mem_env \<Rightarrow> request \<Rightarrow> mem_state \<Rightarrow> response \<times> mem_state \<times> effect list" where
  "handle cfg rt env (PostGenerate req_body) s = generate cfg rt env req_body s"
| "handle cfg rt env GetGallery s = (gallery rt s, s, [])"
| "handle cfg rt env (GetImage imageId) s = (serve_image rt s imageId, s, [])"
| "handle cfg rt env (GetDownload imageId) s = (download rt s imageId, s, [])"

fun run :: "config \<Rightarrow> runtime \<Rightarrow> (mem_env \<times> request) list \<Rightarrow> mem_state \<Rightarrow> mem_state" where
  "run cfg rt [] s = s"
| "run cfg rt ((env, req) # rest) s = run cfg rt rest (fst (snd (handle cfg rt env req s)))"

section \<open>The persistent server (server-persistent.mjs)\<close>

text \<open>
  A row of the table \<^verbatim>\<open>images\<close> (lines 43 to 49): the id is the primary key, the id
  and the provider's identifier hold at most 255 characters, and the database sets the
  timestamp when the row is inserted.
\<close>

record row =
  row_id :: string
  row_prompt :: string
  cloudinary_url :: string
  cloudinary_public_id :: string
  row_timestamp :: int

type_synonym db = "row list"

text \<open>
  What a request of the persistent server meets outside: the object store answers the
  upload with a \<^verbatim>\<open>secure_url\<close> and a \<^verbatim>\<open>public_id\<close> or the upload throws; the
  database is reachable or every query throws; \<open>db_now\<close> is the database's clock;
  \<open>select_all\<close> is the database's answer to
  \<^verbatim>\<open>SELECT * FROM images ORDER BY timestamp DESC\<close>; \<open>http_get\<close> is what a GET of a URL
  returns; the rest is what the share page reads of the request and the clock.
\<close>

datatype fetch_result = GetThrows | GetNotOk | GetOk "bytes option"

record pers_env = gen_env +
  upload_result :: "(string \<times> string) option"
  db_ok :: bool
  db_now :: int
  select_all :: "row list"
  http_get :: "string \<Rightarrow> fetch_result"
  req_protocol :: string
  req_host :: string
  date_now :: int

text \<open>
  The contract of the ordered query: the answer holds the rows of the table, each once,
  in descending order of timestamp. PostgreSQL leaves the order of rows with equal
  timestamps open.
\<close>

definition order_by_timestamp_desc :: "db \<Rightarrow> row list \<Rightarrow> bool" where
  "order_by_timestamp_desc table rows =
     (mset rows = mset table \<and> sorted_wrt (\<lambda>a b. row_timestamp b \<le> row_timestamp a) rows)"

text \<open>
  \<^verbatim>\<open>INSERT INTO images ...\<close>: \<open>None\<close> when the statement throws, which it does when the
  database cannot be reached, when a row has the id already (the primary key), and when
  the id or the provider's identifier is longer than the 255 characters of its column.
  A string is counted in bytes, which for the decimal text of an id is its number of
  characters.
\<close>

definition insert_row :: "bool \<Rightarrow> db \<Rightarrow> row \<Rightarrow> db option" where
  "insert_row ok table r =
     (if ok \<and> row_id r \<notin> row_id ` set table
         \<and> length (row_id r) \<le> 255 \<and> length (cloudinary_public_id r) \<le> 255
      then Some (table @ [r]) else None)"

text \<open>\<^verbatim>\<open>SELECT * FROM images WHERE id = $1\<close>, and \<^verbatim>\<open>result.rows[0]\<close> of its answer.\<close>

definition select_by_id :: "db \<Rightarrow> string \<Rightarrow> row option" where
  "select_by_id table imageId = find (\<lambda>r. row_id r = imageId) table"

definition generate_p :: "config \<Rightarrow> runtime \<Rightarrow> pers_env \<Rightarrow> js \<Rightarrow> db \<Rightarrow> response \<times> db \<times> effect list" where
  "generate_p cfg rt env req_body table =
     (case generate_image cfg rt env req_body of
        Answered res effs \<Rightarrow> (res, table, effs)
      | Decoded prompt_v b64 imgBuffer effs \<Rightarrow>
          (let imageId = number_to_string rt (Finite (fresh_id env));
               up = CloudinaryUpload (''data:image/png;base64,'' @ to_string rt b64) (''degenify/'' @ imageId)
           in case upload_result env of
                None \<Rightarrow> (server_error, table, effs @ [up])
              | Some (secure_url, public_id) \<Rightarrow>
                  (case insert_row (db_ok env) table
                          \<lparr> row_id = imageId, row_prompt = pg_text rt prompt_v,
                            cloudinary_url = secure_url, cloudinary_public_id = public_id,
                            row_timestamp = db_now env \<rparr> of
                     None \<Rightarrow> (server_error, table, effs @ [up])
                   | Some table' \<Rightarrow> (png_response imgBuffer, table', effs @ [up]))))"

definition database_error :: response where
  "database_error = json_response 500 (error_json ''Database error'')"

text \<open>Lines 161 to 166: the object the gallery lists for a row.\<close>

definition row_json :: "runtime \<Rightarrow> row \<Rightarrow> js" where
  "row_json rt r =
     JObj [(''id'', JStr (row_id r)),
           (''prompt'', JStr (row_prompt r)),
           (''imageData'', JStr (cloudinary_url r)),
           (''timestamp'', JStr (to_iso rt (row_timestamp r)))]"

definition gallery_p :: "runtime \<Rightarrow> pers_env \<Rightarrow> response" where
  "gallery_p rt env =
     (if \<not> db_ok env then database_error
      else json_response 200 (JArr (map (row_json rt) (select_all env))))"

definition serve_image_p :: "pers_env \<Rightarrow> db \<Rightarrow> string \<Rightarrow> response" where
  "serve_image_p env table imageId =
     (if \<not> db_ok env then database_error
      else (case select_by_id table imageId of
          None \<Rightarrow> not_found
        | Some img \<Rightarrow>
            (case http_get env (cloudinary_url img) of
               GetThrows \<Rightarrow> database_error
             | GetNotOk \<Rightarrow> json_response 404 (error_json ''Image not found on Cloudinary'')
             | GetOk None \<Rightarrow> database_error
             | GetOk (Some imageBuffer) \<Rightarrow>
                 \<lparr> status = 200,
                   headers = [(''Content-Type'', ''image/png''),
                              (''Cache-Control'', ''public, max-age=31536000'')],
                   body = BufferBody imageBuffer \<rparr>)))"

text \<open>\<^verbatim>\<open>res.redirect(url)\<close>: Express answers 302 with the URL as \<^verbatim>\<open>Location\<close>.\<close>

definition download_p :: "pers_env \<Rightarrow> db \<Rightarrow> string \<Rightarrow> response" where
  "download_p env table imageId =
     (if \<not> db_ok env then database_error
      else (case select_by_id table imageId of
          None \<Rightarrow> not_found
        | Some img \<Rightarrow>
            \<lparr> status = 302, headers = [(''Location'', cloudinary_url img)], body = RedirectNotice \<rparr>))"

section \<open>The share page\<close>

text \<open>
  The template literal of lines 217 to 648 of \<^verbatim>\<open>server-persistent.mjs\<close>: its static
  text, cut at the interpolations, and the page that the interpolated values give. The
  bytes are those of the page in UTF-8.
\<close>

definition share_static_1 :: string where
  \<open>share_static_1 =
     ''\<newline>''
     @ ''<!DOCTYPE html>\<newline>''
     @ ''<html lang="en">\<newline>''
     @ ''<head>\<newline>''
     @ ''    <meta charset="UTF-8">\<newline>''
     @ ''    <meta name="viewport" content="width=device-width, initial-scale=1.0">\<newline>''
     @ ''    <title>Epic Degeneration by Degenify</title>\<newline>''
     @ ''    <meta name="description" content="Check out this epic degeneration I created with Degenify! ''
     @ [CHR 0xF0, CHR 0x9F, CHR 0x8E, CHR 0xA9]
     @ '' ''
     @ [CHR 0xF0, CHR 0x9F, CHR 0x94, CHR 0xA5]
     @ '' $DEGEN">\<newline>''
     @ ''    <link rel="icon" type="image/png" href="/hat-logo.png">\<newline>''
     @ ''    <link rel="preconnect" href="https://fonts.googleapis.com">\<newline>''
     @ ''    <link rel="preconnect" href="https://fonts.gstatic.com" crossorigin>\<newline>''
     @ ''    <link href="https://fonts.googleapis.com/css2?family=Inter:wght@400;500;600;700;800&display=swap" rel="stylesheet">\<newline>''
     @ ''    \<newline>''
     @ ''    <!-- Open Graph / Facebook -->\<newline>''
     @ ''    <meta property="og:type" content="website">\<newline>''
     @ ''    <meta property="og:url" content="''\<close>

definition share_static_2 :: string where
  \<open>share_static_2 =
     ''">\<newline>''
     @ ''    <meta property="og:title" content="Epic Degeneration by Degenify">\<newline>''
     @ ''    <meta property="og:description" content="Check out this epic degeneration I created with Degenify! ''
     @ [CHR 0xF0, CHR 0x9F, CHR 0x8E, CHR 0xA9]
     @ '' ''
     @ [CHR 0xF0, CHR 0x9F, CHR 0x94, CHR 0xA5]
     @ '' $DEGEN">\<newline>''
     @ ''    <meta property="og:image" content="''\<close>

definition share_static_3 :: string where
  \<open>share_static_3 =
     ''">\<newline>''
     @ ''    <meta property="og:image:url" content="''\<close>

definition share_static_4 :: string where
  \<open>share_static_4 =
     ''">\<newline>''
     @ ''    <meta property="og:image:width" content="1024">\<newline>''
     @ ''    <meta property="og:image:height" content="1024">\<newline>''
     @ ''    <meta property="og:image:type" content="image/png">\<newline>''
     @ ''    <meta property="og:image:alt" content="Epic Degeneration by Degenify">\<newline>''
     @ ''    <meta property="og:site_name" content="Degenify">\<newline>''
     @ ''    <meta property="og:locale" content="en_US">\<newline>''
     @ ''    \<newline>''
     @ ''    <!-- Twitter -->\<newline>''
     @ ''    <meta name="twitter:card" content="summary_large_image">\<newline>''
     @ ''    <meta name="twitter:site" content="@degentokenbase">\<newline>''
     @ ''    <meta name="twitter:creator" content="@degentokenbase">\<newline>''
     @ ''    <meta name="twitter:url" content="''\<close>

definition share_static_5 :: string where
  \<open>share_static_5 =
     ''">\<newline>''
     @ ''    <meta name="twitter:title" content="Epic Degeneration by Degenify">\<newline>''
     @ ''    <meta name="twitter:description" content="Check out this epic degeneration I created with Degenify! ''
     @ [CHR 0xF0, CHR 0x9F, CHR 0x8E, CHR 0xA9]
     @ '' ''
     @ [CHR 0xF0, CHR 0x9F, CHR 0x94, CHR 0xA5]
     @ '' $DEGEN">\<newline>''
     @ ''    <meta name="twitter:image" content="''\<close>

definition share_static_6 :: string where
  \<open>share_static_6 =
     ''">\<newline>''
     @ ''    <meta name="twitter:image:alt" content="Epic Degeneration by Degenify">\<newline>''
     @ ''    \<newline>''
     @ ''    <!-- Additional meta tags for better compatibility -->\<newline>''
     @ ''    <meta name="theme-color" content="#667eea">\<newline>''
     @ ''    <meta name="msapplication-TileColor" content="#667eea">\<newline>''
     @ ''    <meta name="apple-mobile-web-app-capable" content="yes">\<newline>''
     @ ''    <meta name="apple-mobile-web-app-status-bar-style" content="black-translucent">\<newline>''
     @ ''    \<newline>''
     @ ''    <style>\<newline>''
     @ ''        /* Degenify Design System - Gen Z Minimalist Aesthetic */\<newline>''
     @ ''        :root {\<newline>''
     @ ''            /* Base colors */\<newline>''
     @ ''            --background: 0 0% 100%;\<newline>''
     @ ''            --foreground: 240 10% 3.9%;\<newline>''
     @ ''            --primary: 267 83% 58%;\<newline>''
     @ ''            --primary-foreground: 0 0% 100%;\<newline>''
     @ ''            --secondary: 267 30% 97%;\<newline>''
     @ ''            --secondary-foreground: 267 83% 25%;\<newline>''
     @ ''            --accent: 280 100% 70%;\<newline>''
     @ ''            --accent-foreground: 0 0% 100%;\<newline>''
     @ ''            --muted: 220 14.3% 95.9%;\<newline>''
     @ ''            --muted-foreground: 220 8.9% 46.1%;\<newline>''
     @ ''            --card: 0 0% 100%;\<newline>''
     @ ''            --card-foreground: 240 10% 3.9%;\<newline>''
     @ ''            --border: 267 20% 90%;\<newline>''
     @ ''            --ring: 267 83% 58%;\<newline>''
     @ ''            --radius: 1rem;\<newline>''
     @ ''            \<newline>''
     @ ''            /* Enhanced gradients */\<newline>''
     @ ''            --gradient-primary: linear-gradient(135deg, hsl(267 83% 58%), hsl(280 100% 70%), hsl(290 100% 75%));\<newline>''
     @ ''            --gradient-subtle: linear-gradient(180deg, hsl(0 0% 100%), hsl(267 15% 98%));\<newline>''
     @ ''            --gradient-mesh: radial-gradient(circle at 20% 80%, hsl(267 83% 58% / 0.3) 0%, transparent 50%), radial-gradient(circle at 80% 20%, hsl(280 100% 70% / 0.3) 0%, transparent 50%);\<newline>''
     @ ''            \<newline>''
     @ ''            /* Enhanced shadows */\<newline>''
     @ ''            --shadow-soft: 0 4px 20px hsl(267 83% 58% / 0.15);\<newline>''
     @ ''            --shadow-glow: 0 0 40px hsl(267 83% 58% / 0.4);\<newline>''
     @ ''            --shadow-card: 0 12px 40px hsl(240 10% 3.9% / 0.1);\<newline>''
     @ ''            --shadow-intense: 0 20px 60px hsl(267 83% 58% / 0.25);\<newline>''
     @ ''            \<newline>''
     @ ''            /* Animation properties */\<newline>''
     @ ''            --transition-smooth: all 0.3s cubic-bezier(0.4, 0, 0.2, 1);\<newline>''
     @ ''            --transition-bounce: all 0.4s cubic-bezier(0.68, -0.55, 0.265, 1.55);\<newline>''
     @ ''        }\<newline>''
     @ ''\<newline>''
     @ ''        * {\<newline>''
     @ ''            box-sizing: border-box;\<newline>''
     @ ''        }\<newline>''
     @ ''\<newline>''
     @ ''        body {\<newline>''
     @ ''            font-family: 'Inter', system-ui, -apple-system, sans-serif;\<newline>''
     @ ''            background: var(--gradient-mesh);\<newline>''
     @ ''            color: hsl(var(--foreground));\<newline>''
     @ ''            margin: 0;\<newline>''
     @ ''            padding: 0;\<newline>''
     @ ''            min-height: 100vh;\<newline>''
     @ ''            line-height: 1.6;\<newline>''
     @ ''        }\<newline>''
     @ ''\<newline>''
     @ ''        .container {\<newline>''
     @ ''            max-width: 1200px;\<newline>''
     @ ''            margin: 0 auto;\<newline>''
     @ ''            padding: 0 1.5rem;\<newline>''
     @ ''            text-align: center;\<newline>''
     @ ''        }\<newline>''
     @ ''\<newline>''
     @ ''        .header {\<newline>''
     @ ''            padding: 1rem 0 0.5rem;\<newline>''
     @ ''            text-align: center;\<newline>''
     @ ''        }\<newline>''
     @ ''\<newline>''
     @ ''        .main {\<newline>''
     @ ''            padding: 0.5rem 0;\<newline>''
     @ ''            text-align: center;\<newline>''
     @ ''        }\<newline>''
     @ ''\<newline>''
     @ ''        .footer {\<newline>''
     @ ''            padding: 2rem 0;\<newline>''
     @ ''            text-align: center;\<newline>''
     @ ''            border-top: 1px solid hsl(var(--border) / 0.3);\<newline>''
     @ ''        }\<newline>''
     @ ''\<newline>''
     @ ''        .btn-degenify {\<newline>''
     @ ''            background: var(--gradient-primary);\<newline>''
     @ ''            color: hsl(var(--primary-foreground));\<newline>''
     @ ''            font-weight: 700;\<newline>''
     @ ''            padding: 1.5rem 3rem;\<newline>''
     @ ''            border-radius: 1.5rem;\<newline>''
     @ ''            box-shadow: var(--shadow-intense);\<newline>''
     @ ''            border: none;\<newline>''
     @ ''            cursor: pointer;\<newline>''
     @ ''            transition: var(--transition-smooth);\<newline>''
     @ ''            position: relative;\<newline>''
     @ ''            overflow: hidden;\<newline>''
     @ ''            font-size: 1.25rem;\<newline>''
     @ ''            height: 4rem;\<newline>''
     @ ''            width: 100%;\<newline>''
     @ ''            max-width: 400px;\<newline>''
     @ ''            display: flex;\<newline>''
     @ ''            align-items: center;\<newline>''
     @ ''            justify-content: center;\<newline>''
     @ ''            gap: 0.75rem;\<newline>''
     @ ''            text-decoration: none;\<newline>''
     @ ''            margin: 2rem auto;\<newline>''
     @ ''        }\<newline>''
     @ ''\<newline>''
     @ ''        .btn-degenify:hover {\<newline>''
     @ ''            box-shadow: var(--shadow-glow);\<newline>''
     @ ''            transform: scale(1.05);\<newline>''
     @ ''        }\<newline>''
     @ ''\<newline>''
     @ ''        .btn-degenify:active {\<newline>''
     @ ''            transform: scale(0.95);\<newline>''
     @ ''        }\<newline>''
     @ ''\<newline>''
     @ ''        .btn-degenify::before {\<newline>''
     @ ''            content: ''
     @ [CHR 0x27, CHR 0x27]
     @ '';\<newline>''
     @ ''            position: absolute;\<newline>''
     @ ''            inset: 0;\<newline>''
     @ ''            background: linear-gradient(90deg, transparent, rgba(255, 255, 255, 0.2), transparent);\<newline>''
     @ ''            transform: translateX(-100%) skewX(12deg);\<newline>''
     @ ''            transition: transform 0.7s;\<newline>''
     @ ''        }\<newline>''
     @ ''\<newline>''
     @ ''        .btn-degenify:hover::before {\<newline>''
     @ ''            transform: translateX(100%);\<newline>''
     @ ''        }\<newline>''
     @ ''\<newline>''
     @ ''        .text-gradient {\<newline>''
     @ ''            background: var(--gradient-primary);\<newline>''
     @ ''            -webkit-background-clip: text;\<newline>''
     @ ''            background-clip: text;\<newline>''
     @ ''            -webkit-text-fill-color: transparent;\<newline>''
     @ ''            color: transparent;\<newline>''
     @ ''        }\<newline>''
     @ ''\<newline>''
     @ ''        .logo-text-container {\<newline>''
     @ ''            display: flex;\<newline>''
     @ ''            align-items: center;\<newline>''
     @ ''            justify-content: center;\<newline>''
     @ ''            gap: 12px;\<newline>''
     @ ''        }\<newline>''
     @ ''\<newline>''
     @ ''        .logo-text-container img {\<newline>''
     @ ''            vertical-align: middle;\<newline>''
     @ ''            transform: translateY(-2px);\<newline>''
     @ ''        }\<newline>''
     @ ''\<newline>''
     @ ''        .result-image {\<newline>''
     @ ''            max-width: 100%;\<newline>''
     @ ''            border-radius: 1rem;\<newline>''
     @ ''            box-shadow: var(--shadow-intense);\<newline>''
     @ ''            margin: 2rem 0;\<newline>''
     @ ''            transition: var(--transition-smooth);\<newline>''
     @ ''        }\<newline>''
     @ ''\<newline>''
     @ ''        .result-image:hover {\<newline>''
     @ ''            transform: scale(1.02);\<newline>''
     @ ''        }\<newline>''
     @ ''\<newline>''
     @ ''        .prompt-overlay {\<newline>''
     @ ''            position: relative;\<newline>''
     @ ''            margin: 2rem 0;\<newline>''
     @ ''            display: inline-block;\<newline>''
     @ ''            max-width: 100%;\<newline>''
     @ ''        }\<newline>''
     @ ''\<newline>''
     @ ''        .prompt-overlay img {\<newline>''
     @ ''            width: 100%;\<newline>''
     @ ''            height: auto;\<newline>''
     @ ''            border-radius: 1rem;\<newline>''
     @ ''            box-shadow: var(--shadow-intense);\<newline>''
     @ ''            max-width: 600px;\<newline>''
     @ ''        }\<newline>''
     @ ''\<newline>''
     @ ''        .image-overlay {\<newline>''
     @ ''            position: absolute;\<newline>''
     @ ''            inset: 0;\<newline>''
     @ ''            background: linear-gradient(to top, rgba(0, 0, 0, 0.8), rgba(0, 0, 0, 0.2), transparent);\<newline>''
     @ ''            opacity: 0;\<newline>''
     @ ''            transition: opacity 0.3s;\<newline>''
     @ ''            border-radius: 1rem;\<newline>''
     @ ''        }\<newline>''
     @ ''\<newline>''
     @ ''        .prompt-overlay:hover .image-overlay {\<newline>''
     @ ''            opacity: 1;\<newline>''
     @ ''        }\<newline>''
     @ ''\<newline>''
     @ ''        .overlay-content {\<newline>''
     @ ''            position: absolute;\<newline>''
     @ ''            bottom: 1rem;\<newline>''
     @ ''            left: 1rem;\<newline>''
     @ ''            right: 1rem;\<newline>''
     @ ''        }\<newline>''
     @ ''\<newline>''
     @ ''        .overlay-actions {\<newline>''
     @ ''            display: flex;\<newline>''
     @ ''            justify-content: space-between;\<newline>''
     @ ''            align-items: center;\<newline>''
     @ ''            margin-bottom: 1rem;\<newline>''
     @ ''        }\<newline>''
     @ ''\<newline>''
     @ ''        .overlay-action-group {\<newline>''
     @ ''            display: flex;\<newline>''
     @ ''            gap: 0.5rem;\<newline>''
     @ ''        }\<newline>''
     @ ''\<newline>''
     @ ''        .overlay-action-btn {\<newline>''
     @ ''            background: rgba(255, 255, 255, 0.2);\<newline>''
     @ ''            backdrop-filter: blur(4px);\<newline>''
     @ ''            border: 1px solid rgba(255, 255, 255, 0.3);\<newline>''
     @ ''            color: white;\<newline>''
     @ ''            border-radius: 0.5rem;\<newline>''
     @ ''            padding: 0.5rem;\<newline>''
     @ ''            cursor: pointer;\<newline>''
     @ ''            transition: var(--transition-smooth);\<newline>''
     @ ''            display: flex;\<newline>''
     @ ''            align-items: center;\<newline>''
     @ ''            justify-content: center;\<newline>''
     @ ''            width: 2rem;\<newline>''
     @ ''            height: 2rem;\<newline>''
     @ ''        }\<newline>''
     @ ''\<newline>''
     @ ''        .overlay-action-btn:hover {\<newline>''
     @ ''            background: rgba(255, 255, 255, 0.3);\<newline>''
     @ ''        }\<newline>''
     @ ''\<newline>''
     @ ''        .overlay-download-btn {\<newline>''
     @ ''            background: hsl(var(--primary) / 0.8);\<newline>''
     @ ''            backdrop-filter: blur(4px);\<newline>''
     @ ''            border: 1px solid hsl(var(--primary));\<newline>''
     @ ''            color: white;\<newline>''
     @ ''            border-radius: 0.5rem;\<newline>''
     @ ''            padding: 0.5rem;\<newline>''
     @ ''            cursor: pointer;\<newline>''
     @ ''            transition: var(--transition-smooth);\<newline>''
     @ ''            display: flex;\<newline>''
     @ ''            align-items: center;\<newline>''
     @ ''            justify-content: center;\<newline>''
     @ ''            width: 2rem;\<newline>''
     @ ''            height: 2rem;\<newline>''
     @ ''        }\<newline>''
     @ ''\<newline>''
     @ ''        .overlay-download-btn:hover {\<newline>''
     @ ''            background: hsl(var(--primary));\<newline>''
     @ ''        }\<newline>''
     @ ''\<newline>''
     @ ''        .prompt-text {\<newline>''
     @ ''            color: white;\<newline>''
     @ ''            font-size: 1.125rem;\<newline>''
     @ ''            font-weight: 500;\<newline>''
     @ ''            line-height: 1.4;\<newline>''
     @ ''            margin: 0;\<newline>''
     @ ''            text-shadow: 0 2px 4px rgba(0, 0, 0, 0.5);\<newline>''
     @ ''        }\<newline>''
     @ ''\<newline>''
     @ ''        .animate-fade-in {\<newline>''
     @ ''            animation: fadeIn 0.6s ease-out;\<newline>''
     @ ''        }\<newline>''
     @ ''\<newline>''
     @ ''        .animate-slide-up {\<newline>''
     @ ''            animation: slideUp 0.8s ease-out;\<newline>''
     @ ''        }\<newline>''
     @ ''\<newline>''
     @ ''        @keyframes fadeIn {\<newline>''
     @ ''            from {\<newline>''
     @ ''                opacity: 0;\<newline>''
     @ ''                transform: translateY(20px);\<newline>''
     @ ''            }\<newline>''
     @ ''            to {\<newline>''
     @ ''                opacity: 1;\<newline>''
     @ ''                transform: translateY(0);\<newline>''
     @ ''            }\<newline>''
     @ ''        }\<newline>''
     @ ''\<newline>''
     @ ''        @keyframes slideUp {\<newline>''
     @ ''            from {\<newline>''
     @ ''                opacity: 0;\<newline>''
     @ ''                transform: translateY(40px);\<newline>''
     @ ''            }\<newline>''
     @ ''            to {\<newline>''
     @ ''                opacity: 1;\<newline>''
     @ ''                transform: translateY(0);\<newline>''
     @ ''            }\<newline>''
     @ ''        }\<newline>''
     @ ''    </style>\<newline>''
     @ ''</head>\<newline>''
     @ ''<body>\<newline>''
     @ ''    <div class="min-h-screen bg-gradient-mesh">\<newline>''
     @ ''        <!-- Header -->\<newline>''
     @ ''        <header class="header text-center">\<newline>''
     @ ''            <div class="container text-center">\<newline>''
     @ ''                <div class="flex flex-col items-center justify-center space-y-2 animate-fade-in">\<newline>''
     @ ''                    <h1 class="text-3xl font-bold text-gradient logo-text-container">\<newline>''
     @ ''                        <img src="/hat-logo.png" alt="Degenify"\<newline>''
     @ ''                            class="drop-shadow-lg hover:scale-110 transition-transform duration-300"\<newline>''
     @ ''                            style="width: 48px; height: 48px;" />\<newline>''
     @ ''                        <span>Degenify</span>\<newline>''
     @ ''                    </h1>\<newline>''
     @ ''                </div>\<newline>''
     @ ''            </div>\<newline>''
     @ ''        </header>\<newline>''
     @ ''\<newline>''
     @ ''        <!-- Main Content -->\<newline>''
     @ ''        <main class="main text-center">\<newline>''
     @ ''            <div class="container text-center">\<newline>''
     @ ''                <div class="text-center mb-2 animate-slide-up">\<newline>''
     @ ''                    <h2 class="text-2xl font-bold text-foreground mb-2 text-center">\<newline>''
     @ ''                        Epic Degeneration\<newline>''
     @ ''                    </h2>\<newline>''
     @ ''                    <p class="text-muted-foreground text-center">\<newline>''
     @ ''                        Check out this amazing creation! ''
     @ [CHR 0xF0, CHR 0x9F, CHR 0x8E, CHR 0xA9]
     @ '' ''
     @ [CHR 0xF0, CHR 0x9F, CHR 0x94, CHR 0xA5]
     @ ''\<newline>''
     @ ''                    </p>\<newline>''
     @ ''                </div>\<newline>''
     @ ''\<newline>''
     @ ''                <!-- Create Yours Button -->\<newline>''
     @ ''                <a href="''\<close>

definition share_static_7 :: string where
  \<open>share_static_7 =
     ''" class="btn-degenify group relative overflow-hidden">\<newline>''
     @ ''                    <div class="flex items-center justify-center space-x-3 relative z-10">\<newline>''
     @ ''                        <span class="sparkles">''
     @ [CHR 0xE2, CHR 0x9C, CHR 0xA8]
     @ ''</span>\<newline>''
     @ ''                        <span class="font-bold">Create yours now ''
     @ [CHR 0xF0, CHR 0x9F, CHR 0x8E, CHR 0xA9]
     @ ''</span>\<newline>''
     @ ''                        <span class="sparkles">''
     @ [CHR 0xE2, CHR 0x9C, CHR 0xA8]
     @ ''</span>\<newline>''
     @ ''                    </div>\<newline>''
     @ ''                </a>\<newline>''
     @ ''\<newline>''
     @ ''                <!-- Image with Prompt Overlay -->\<newline>''
     @ ''                <div class="prompt-overlay">\<newline>''
     @ ''                    <img src="''\<close>

definition share_static_8 :: string where
  \<open>share_static_8 =
     ''" alt="Epic Degeneration">\<newline>''
     @ ''                    <div class="image-overlay">\<newline>''
     @ ''                        <div class="overlay-content">\<newline>''
     @ ''                            <div class="overlay-actions">\<newline>''
     @ ''                                <div class="overlay-action-group">\<newline>''
     @ ''                                    <button class="overlay-action-btn" onclick="shareImage(''
     @ [CHR 0x27]\<close>

definition share_static_9 :: string where
  \<open>share_static_9 =
     [CHR 0x27]
     @ '')">\<newline>''
     @ ''                                        <svg width="16" height="16" viewBox="0 0 24 24" fill="none" stroke="currentColor" stroke-width="2">\<newline>''
     @ ''                                            <path d="M8.684 13.342C8.886 12.938 9 12.482 9 12c0-.482-.114-.938-.316-1.342m0 2.684a3 3 0 1 1 0-2.684m0 2.684l6.632 3.316m-6.632-6l6.632-3.316m0 0a3 3 0 1 1 5.367-2.684 3 3 0 0 1-5.367 2.684zm0 9.316a3 3 0 1 1 5.367 2.684 3 3 0 0 1-5.367-2.684z"/>\<newline>''
     @ ''                                        </svg>\<newline>''
     @ ''                                    </button>\<newline>''
     @ ''                                </div>\<newline>''
     @ ''                                <button class="overlay-download-btn" onclick="downloadImage(''
     @ [CHR 0x27]\<close>

definition share_static_10 :: string where
  \<open>share_static_10 =
     [CHR 0x27]
     @ '')">\<newline>''
     @ ''                                    <svg width="16" height="16" viewBox="0 0 24 24" fill="none" stroke="currentColor" stroke-width="2">\<newline>''
     @ ''                                        <path d="M21 15v4a2 2 0 0 1-2 2H5a2 2 0 0 1-2-2v-4"/>\<newline>''
     @ ''                                        <polyline points="7,10 12,15 17,10"/>\<newline>''
     @ ''                                        <line x1="12" y1="15" x2="12" y2="3"/>\<newline>''
     @ ''                                    </svg>\<newline>''
     @ ''                                </button>\<newline>''
     @ ''                            </div>\<newline>''
     @ ''                            <p class="prompt-text">''\<close>

definition share_static_11 :: string where
  \<open>share_static_11 =
     ''</p>\<newline>''
     @ ''                        </div>\<newline>''
     @ ''                    </div>\<newline>''
     @ ''                </div>\<newline>''
     @ ''            </div>\<newline>''
     @ ''        </main>\<newline>''
     @ ''\<newline>''
     @ ''        <!-- Footer -->\<newline>''
     @ ''        <footer class="footer">\<newline>''
     @ ''            <div class="container">\<newline>''
     @ ''                <p class="text-sm text-muted-foreground">\<newline>''
     @ ''                    Made with ''
     @ [CHR 0xF0, CHR 0x9F, CHR 0x92, CHR 0x9C]
     @ '' for the degen community\<newline>''
     @ ''                </p>\<newline>''
     @ ''            </div>\<newline>''
     @ ''        </footer>\<newline>''
     @ ''    </div>\<newline>''
     @ ''\<newline>''
     @ ''    <script>\<newline>''
     @ ''        // Share image function\<newline>''
     @ ''        function shareImage(imageId) {\<newline>''
     @ ''            const shareUrl = window.location.origin + '/api/share/' + imageId;\<newline>''
     @ ''            const text = 'Check out this epic degeneration I created with Degenify! ''
     @ [CHR 0xF0, CHR 0x9F, CHR 0x8E, CHR 0xA9]
     @ '' ''
     @ [CHR 0xF0, CHR 0x9F, CHR 0x94, CHR 0xA5]
     @ '' ''
     @ [CHR 0x5C]
     @ ''nCreate yours on ' + window.location.origin + ''
     @ [CHR 0x27, CHR 0x5C]
     @ ''n''
     @ [CHR 0x5C]
     @ ''n$DEGEN @degentokenbase';\<newline>''
     @ ''            const twitterUrl = 'https://twitter.com/intent/tweet?text=' + encodeURIComponent(text) + '&url=' + encodeURIComponent(shareUrl);\<newline>''
     @ ''            window.open(twitterUrl, '_blank');\<newline>''
     @ ''        }\<newline>''
     @ ''\<newline>''
     @ ''        // Download image function\<newline>''
     @ ''        function downloadImage(imageId) {\<newline>''
     @ ''            fetch('/api/download/' + imageId)\<newline>''
     @ ''                .then(response => {\<newline>''
     @ ''                    if (!response.ok) {\<newline>''
     @ ''                        throw new Error('Download failed');\<newline>''
     @ ''                    }\<newline>''
     @ ''                    return response.blob();\<newline>''
     @ ''                })\<newline>''
     @ ''                .then(blob => {\<newline>''
     @ ''                    const url = window.URL.createObjectURL(blob);\<newline>''
     @ ''                    const link = document.createElement('a');\<newline>''
     @ ''                    link.href = url;\<newline>''
     @ ''                    link.download = 'meme-' + imageId + '.png';\<newline>''
     @ ''                    document.body.appendChild(link);\<newline>''
     @ ''                    link.click();\<newline>''
     @ ''                    document.body.removeChild(link);\<newline>''
     @ ''                    window.URL.revokeObjectURL(url);\<newline>''
     @ ''                })\<newline>''
     @ ''                .catch(error => {\<newline>''
     @ ''                    console.error('Download error:', error);\<newline>''
     @ ''                    alert('Download failed: ' + error.message);\<newline>''
     @ ''                });\<newline>''
     @ ''        }\<newline>''
     @ ''    </script>\<newline>''
     @ ''</body>\<newline>''
     @ ''</html>''\<close>

definition share_html :: "string \<Rightarrow> string \<Rightarrow> string \<Rightarrow> string \<Rightarrow> string \<Rightarrow> string \<Rightarrow> string" where
  "share_html protocol host imageId cloudinaryUrl imageUrl prompt_text =
     share_static_1
     @ protocol
     @ ''://''
     @ host
     @ ''/api/share/''
     @ imageId
     @ share_static_2
     @ cloudinaryUrl
     @ share_static_3
     @ cloudinaryUrl
     @ share_static_4
     @ protocol
     @ ''://''
     @ host
     @ ''/api/share/''
     @ imageId
     @ share_static_5
     @ cloudinaryUrl
     @ share_static_6
     @ protocol
     @ ''://''
     @ host
     @ share_static_7
     @ imageUrl
     @ share_static_8
     @ imageId
     @ share_static_9
     @ imageId
     @ share_static_10
     @ prompt_text
     @ share_static_11"

definition html_response :: "string \<Rightarrow> response" where
  "html_response html = \<lparr> status = 200, headers = [(''Content-Type'', ''text/html'')], body = TextBody html \<rparr>"

definition text_response :: "nat \<Rightarrow> string \<Rightarrow> response" where
  "text_response code msg = \<lparr> status = code, headers = [], body = TextBody msg \<rparr>"

text \<open>Lines 203 to 656. The number of \<^verbatim>\<open>Date.now()\<close> is written in decimal.\<close>

definition share :: "runtime \<Rightarrow> pers_env \<Rightarrow> db \<Rightarrow> string \<Rightarrow> response" where
  "share rt env table imageId =
     (if \<not> db_ok env then text_response 500 ''Server error''
      else (case select_by_id table imageId of
          None \<Rightarrow> text_response 404 ''Image not found''
        | Some img \<Rightarrow>
            (let imageUrl = req_protocol env @ ''://'' @ req_host env @ ''/api/image/'' @ imageId;
                 cloudinaryUrl = cloudinary_url img @ ''?t='' @ number_to_string rt (Finite (of_int (date_now env)))
             in html_response
                  (share_html (req_protocol env) (req_host env) imageId cloudinaryUrl imageUrl (row_prompt img)))))"

text \<open>
  The share page of the server's earlier version (the second file of the persistent
  server, lines 203 to 282), whose other handlers are those above word for word.
\<close>

definition share_v1_static_1 :: string where
  \<open>share_v1_static_1 =
     ''\<newline>''
     @ ''<!DOCTYPE html>\<newline>''
     @ ''<html lang="en">\<newline>''
     @ ''<head>\<newline>''
     @ ''    <meta charset="UTF-8">\<newline>''
     @ ''    <meta name="viewport" content="width=device-width, initial-scale=1.0">\<newline>''
     @ ''    <title>Epic Degeneration by Degenify</title>\<newline>''
     @ ''    <meta name="description" content="Check out this epic degeneration I created with Degenify! ''
     @ [CHR 0xF0, CHR 0x9F, CHR 0x8E, CHR 0xA9]
     @ '' ''
     @ [CHR 0xF0, CHR 0x9F, CHR 0x94, CHR 0xA5]
     @ '' $DEGEN">\<newline>''
     @ ''    \<newline>''
     @ ''    <!-- Open Graph / Facebook -->\<newline>''
     @ ''    <meta property="og:type" content="website">\<newline>''
     @ ''    <meta property="og:url" content="''\<close>

definition share_v1_static_2 :: string where
  \<open>share_v1_static_2 =
     ''">\<newline>''
     @ ''    <meta property="og:title" content="Epic Degeneration by Degenify">\<newline>''
     @ ''    <meta property="og:description" content="Check out this epic degeneration I created with Degenify! ''
     @ [CHR 0xF0, CHR 0x9F, CHR 0x8E, CHR 0xA9]
     @ '' ''
     @ [CHR 0xF0, CHR 0x9F, CHR 0x94, CHR 0xA5]
     @ '' $DEGEN">\<newline>''
     @ ''    <meta property="og:image" content="''\<close>

definition share_v1_static_3 :: string where
  \<open>share_v1_static_3 =
     ''">\<newline>''
     @ ''    <meta property="og:image:width" content="1024">\<newline>''
     @ ''    <meta property="og:image:height" content="1024">\<newline>''
     @ ''    <meta property="og:image:type" content="image/png">\<newline>''
     @ ''    \<newline>''
     @ ''    <!-- Twitter -->\<newline>''
     @ ''    <meta property="twitter:card" content="summary_large_image">\<newline>''
     @ ''    <meta property="twitter:url" content="''\<close>

definition share_v1_static_4 :: string where
  \<open>share_v1_static_4 =
     ''">\<newline>''
     @ ''    <meta property="twitter:title" content="Epic Degeneration by Degenify">\<newline>''
     @ ''    <meta property="twitter:description" content="Check out this epic degeneration I created with Degenify! ''
     @ [CHR 0xF0, CHR 0x9F, CHR 0x8E, CHR 0xA9]
     @ '' ''
     @ [CHR 0xF0, CHR 0x9F, CHR 0x94, CHR 0xA5]
     @ '' $DEGEN">\<newline>''
     @ ''    <meta property="twitter:image" content="''\<close>

definition share_v1_static_5 :: string where
  \<open>share_v1_static_5 =
     ''">\<newline>''
     @ ''    \<newline>''
     @ ''    <style>\<newline>''
     @ ''        body { \<newline>''
     @ ''            margin: 0; \<newline>''
     @ ''            padding: 20px; \<newline>''
     @ ''            font-family: Arial, sans-serif; \<newline>''
     @ ''            text-align: center;\<newline>''
     @ ''            background: linear-gradient(135deg, #667eea 0%, #764ba2 100%);\<newline>''
     @ ''            color: white;\<newline>''
     @ ''        }\<newline>''
     @ ''        img { \<newline>''
     @ ''            max-width: 100%; \<newline>''
     @ ''            height: auto; \<newline>''
     @ ''            border-radius: 10px;\<newline>''
     @ ''            box-shadow: 0 10px 30px rgba(0,0,0,0.3);\<newline>''
     @ ''        }\<newline>''
     @ ''        h1 { margin-bottom: 20px; }\<newline>''
     @ ''        .prompt { \<newline>''
     @ ''            background: rgba(255,255,255,0.1); \<newline>''
     @ ''            padding: 15px; \<newline>''
     @ ''            border-radius: 10px; \<newline>''
     @ ''            margin: 20px 0;\<newline>''
     @ ''            backdrop-filter: blur(10px);\<newline>''
     @ ''        }\<newline>''
     @ ''    </style>\<newline>''
     @ ''</head>\<newline>''
     @ ''<body>\<newline>''
     @ ''    <h1>''
     @ [CHR 0xF0, CHR 0x9F, CHR 0x8E, CHR 0xA9]
     @ '' Epic Degeneration by Degenify</h1>\<newline>''
     @ ''    <div class="prompt">\<newline>''
     @ ''        <strong>Prompt:</strong> ''\<close>

definition share_v1_static_6 :: string where
  \<open>share_v1_static_6 =
     ''\<newline>''
     @ ''    </div>\<newline>''
     @ ''    <img src="''\<close>

definition share_v1_static_7 :: string where
  \<open>share_v1_static_7 =
     ''" alt="Epic Degeneration">\<newline>''
     @ ''    <p>Created with Degenify - Transform any situation! ''
     @ [CHR 0xF0, CHR 0x9F, CHR 0x94, CHR 0xA5]
     @ ''</p>\<newline>''
     @ ''</body>\<newline>''
     @ ''</html>''\<close>

definition share_v1_html :: "string \<Rightarrow> string \<Rightarrow> string \<Rightarrow> string \<Rightarrow> string \<Rightarrow> string" where
  "share_v1_html protocol host imageId imageUrl prompt_text =
     share_v1_static_1
     @ protocol
     @ ''://''
     @ host
     @ ''/api/share/''
     @ imageId
     @ share_v1_static_2
     @ imageUrl
     @ share_v1_static_3
     @ protocol
     @ ''://''
     @ host
     @ ''/api/share/''
     @ imageId
     @ share_v1_static_4
     @ imageUrl
     @ share_v1_static_5
     @ prompt_text
     @ share_v1_static_6
     @ imageUrl
     @ share_v1_static_7"

definition share_v1 :: "pers_env \<Rightarrow> db \<Rightarrow> string \<Rightarrow> response" where
  "share_v1 env table imageId =
     (if \<not> db_ok env then text_response 500 ''Server error''
      else (case select_by_id table imageId of
          None \<Rightarrow> text_response 404 ''Image not found''
        | Some img \<Rightarrow>
            (let imageUrl = req_protocol env @ ''://'' @ req_host env @ ''/api/image/'' @ imageId
             in html_response
                  (share_v1_html (req_protocol env) (req_host env) imageId imageUrl (row_prompt img)))))"

text \<open>The exposed operations of the persistent server, and a run of them.\<close>

datatype request_p = PostGenerateP js | GetGalleryP | GetImageP string | GetShareP string | GetDownloadP string

fun handle_p :: "config \<Rightarrow> runtime \<Rightarrow> pers_env \<Rightarrow> request_p \<Rightarrow> db \<Rightarrow> response \<times> db \<times> effect list" where
  "handle_p cfg rt env (PostGenerateP req_body) table = generate_p cfg rt env req_body table"
| "handle_p cfg rt env GetGalleryP table = (gallery_p rt env, table, [])"
| "handle_p cfg rt env (GetImageP imageId) table = (serve_image_p env table imageId, table, [])"
| "handle_p cfg rt env (GetShareP imageId) table = (share rt env table imageId, table, [])"
| "handle_p cfg rt env (GetDownloadP imageId) table = (download_p env table imageId, table, [])"

fun run_p :: "config \<Rightarrow> runtime \<Rightarrow> (pers_env \<times> request_p) list \<Rightarrow> db \<Rightarrow> db" where
  "run_p cfg rt [] table = table"
| "run_p cfg rt ((env, req) # rest) table = run_p cfg rt rest (fst (snd (handle_p cfg rt env req table)))"

section \<open>Notions for the statements\<close>

text \<open>
  The property names of an object, in order (\<^verbatim>\<open>Object.keys\<close>), and what it means for a
  part of the upstream response to carry a payload under a key: \<^verbatim>\<open>p[key]?.data\<close> is
  truthy.
\<close>

definition keys_of :: "js \<Rightarrow> string list" where
  "keys_of v = (case v of JObj kvs \<Rightarrow> map fst kvs | _ \<Rightarrow> [])"

definition carries_payload :: "js \<Rightarrow> string \<Rightarrow> bool" where
  "carries_payload p key = truthy (opt_prop (opt_prop p key) ''data'')"


section \<open>A concrete runtime and concrete requests\<close>

text \<open>
  The worked examples below need a runtime that computes. This one computes what Node
  computes on the values the examples use: base64 with the standard alphabet and
  padding (RFC 4648) for text that an encoder wrote, and numbers that are naturals,
  written and read in decimal. Values of other kinds do not occur in the examples.
\<close>

definition b64_alphabet :: string where
  "b64_alphabet = ''ABCDEFGHIJKLMNOPQRSTUVWXYZabcdefghijklmnopqrstuvwxyz0123456789+/''"

definition sextet_char :: "nat \<Rightarrow> char" where
  "sextet_char n = b64_alphabet ! (n mod 64)"

fun index_in :: "char \<Rightarrow> string \<Rightarrow> nat" where
  "index_in c [] = 0"
| "index_in c (x # xs) = (if c = x then 0 else Suc (index_in c xs))"

definition char_sextet :: "char \<Rightarrow> nat" where
  "char_sextet c = index_in c b64_alphabet mod 64"

fun base64_encode :: "bytes \<Rightarrow> string" where
  "base64_encode (a # b # c # rest) =
     [sextet_char (of_char a div 4),
      sextet_char ((of_char a mod 4) * 16 + of_char b div 16),
      sextet_char ((of_char b mod 16) * 4 + of_char c div 64),
      sextet_char (of_char c mod 64)] @ base64_encode rest"
| "base64_encode [a, b] =
     [sextet_char (of_char a div 4),
      sextet_char ((of_char a mod 4) * 16 + of_char b div 16),
      sextet_char ((of_char b mod 16) * 4),
      CHR ''='']"
| "base64_encode [a] =
     [sextet_char (of_char a div 4),
      sextet_char ((of_char a mod 4) * 16),
      CHR ''='', CHR ''='']"
| "base64_encode [] = []"

fun base64_decode :: "string \<Rightarrow> bytes" where
  "base64_decode (w # x # y # z # rest) =
     (if y = CHR ''='' then [char_of (char_sextet w * 4 + char_sextet x div 16)]
      else if z = CHR ''='' then
        [char_of (char_sextet w * 4 + char_sextet x div 16),
         char_of ((char_sextet x mod 16) * 16 + char_sextet y div 4)]
      else
        [char_of (char_sextet w * 4 + char_sextet x div 16),
         char_of ((char_sextet x mod 16) * 16 + char_sextet y div 4),
         char_of ((char_sextet y mod 4) * 64 + char_sextet z)] @ base64_decode rest)"
| "base64_decode rest = []"

fun decimal_value :: "nat \<Rightarrow> string \<Rightarrow> nat option" where
  "decimal_value acc [] = Some acc"
| "decimal_value acc (c # cs) =
     (if (48::nat) \<le> of_char c \<and> (of_char c :: nat) \<le> 57
      then decimal_value (acc * 10 + (of_char c - 48)) cs
      else None)"

definition decimal_number :: "string \<Rightarrow> jsnum" where
  "decimal_number s = (case decimal_value 0 s of None \<Rightarrow> NaN | Some n \<Rightarrow> Finite (of_nat n))"

function decimal_of_nat :: "nat \<Rightarrow> string" where
  "decimal_of_nat n =
     (if n < 10 then [''0123456789'' ! n]
      else decimal_of_nat (n div 10) @ [''0123456789'' ! (n mod 10)])"
  by pat_completeness auto
termination
  by (relation "measure (\<lambda>n. n)") auto

definition decimal_string :: "jsnum \<Rightarrow> string" where
  "decimal_string n =
     (case n of
        Finite q \<Rightarrow> (if 0 \<le> q \<and> of_int \<lfloor>q\<rfloor> = q then decimal_of_nat (nat \<lfloor>q\<rfloor>) else ''NaN'')
      | _ \<Rightarrow> ''NaN'')"

definition sample_rt :: runtime where
  "sample_rt =
     \<lparr> b64_decode = base64_decode, b64_encode = base64_encode,
       buffer_from_other = (\<lambda>v. None),
       to_number = decimal_number, number_to_string = decimal_string,
       to_string_other = (\<lambda>v. []), pg_text_other = (\<lambda>v. []), to_iso = (\<lambda>t. []) \<rparr>"

definition sample_cfg :: config where
  "sample_cfg =
     \<lparr> GOOGLE_API_KEY = Some ''k'', MODEL_ID = ''gemini-2.5-flash-image-preview'',
       BASE_IMAGE_PATH = ''public/base.png'',
       GOOGLE_API_BASE = ''https://generativelanguage.googleapis.com'' \<rparr>"

text \<open>
  An upstream answer that carries the payload under \<open>key\<close> in its second part, after a
  text part, and a request body with a prompt.
\<close>

definition upstream_data :: "string \<Rightarrow> string \<Rightarrow> js" where
  "upstream_data key b64 =
     JObj [(''candidates'',
       JArr [JObj [(''content'',
         JObj [(''parts'',
           JArr [JObj [(''text'', JStr ''done'')],
                 JObj [(key, JObj [(''mimeType'', JStr ''image/png''), (''data'', JStr b64)])]])])]])]"

definition prompt_body :: "string \<Rightarrow> js" where
  "prompt_body p = JObj [(''prompt'', JStr p)]"

definition text_only_data :: js where
  "text_only_data =
     JObj [(''candidates'',
       JArr [JObj [(''content'', JObj [(''parts'', JArr [JObj [(''text'', JStr ''no image'')]])])]])]"

text \<open>
  A request of the in-memory server that meets the base image \<^verbatim>\<open>PNG\<close> and the
  upstream answer \<open>data\<close>, at the clock reading \<open>t\<close> (read by \<^verbatim>\<open>Date.now()\<close> and by
  \<^verbatim>\<open>new Date()\<close>) and with \<open>r\<close> the value of \<^verbatim>\<open>Math.random()\<close>; the same for the
  persistent server, whose upload and database succeed.
\<close>

definition mem_world :: "js \<Rightarrow> int \<Rightarrow> rat \<Rightarrow> mem_env" where
  "mem_world data t r =
     \<lparr> base_image = File ''PNG'', upstream = OkBody (Some data),
       fresh_id = of_int t + r, now = t, file_write_ok = True \<rparr>"

definition pers_world :: "js \<Rightarrow> int \<Rightarrow> rat \<Rightarrow> pers_env" where
  "pers_world data t r =
     \<lparr> base_image = File ''PNG'', upstream = OkBody (Some data),
       fresh_id = of_int t + r,
       upload_result =
         Some (''https://res.cloudinary.com/demo/degenify/'' @ decimal_string (Finite (of_int t + r)) @ ''.png'',
               ''degenify/degenify/'' @ decimal_string (Finite (of_int t + r))),
       db_ok = True, db_now = t, select_all = [],
       http_get = (\<lambda>url. GetNotOk), req_protocol = ''https'', req_host = ''degenify.example'',
       date_now = t \<rparr>"

definition empty_state :: mem_state where
  "empty_state = \<lparr> generatedImages = [], gallery_file = None \<rparr>"

text \<open>
  The record that such a request with prompt \<open>p\<close> stores when the upstream answer carries
  the payload \<^verbatim>\<open>QUJD\<close> (the bytes \<^verbatim>\<open>ABC\<close>), and the row it stores when
  \<^verbatim>\<open>Math.random()\<close> is 0; three such requests, A then B then C, at the clock readings
  given.
\<close>

definition image_data :: js where
  "image_data = upstream_data ''inlineData'' ''QUJD''"

definition sample_image :: "string \<Rightarrow> int \<Rightarrow> rat \<Rightarrow> image" where
  "sample_image p t r = \<lparr> id' = of_int t + r, prompt = JStr p, imageData = ''QUJD'', timestamp = t \<rparr>"

definition sample_row :: "string \<Rightarrow> int \<Rightarrow> row" where
  "sample_row p t =
     \<lparr> row_id = decimal_string (Finite (of_int t)), row_prompt = p,
       cloudinary_url = ''https://res.cloudinary.com/demo/degenify/'' @ decimal_string (Finite (of_int t)) @ ''.png'',
       cloudinary_public_id = ''degenify/degenify/'' @ decimal_string (Finite (of_int t)),
       row_timestamp = t \<rparr>"

definition three_posts :: "int \<Rightarrow> int \<Rightarrow> int \<Rightarrow> (mem_env \<times> request) list" where
  "three_posts tA tB tC =
     [(mem_world image_data tA (1 / 4), PostGenerate (prompt_body ''A'')),
      (mem_world image_data tB (1 / 2), PostGenerate (prompt_body ''B'')),
      (mem_world image_data tC (3 / 4), PostGenerate (prompt_body ''C''))]"

definition three_posts_p :: "int \<Rightarrow> int \<Rightarrow> int \<Rightarrow> (pers_env \<times> request_p) list" where
  "three_posts_p tA tB tC =
     [(pers_world image_data tA 0, PostGenerateP (prompt_body ''A'')),
      (pers_world image_data tB 0, PostGenerateP (prompt_body ''B'')),
      (pers_world image_data tC 0, PostGenerateP (prompt_body ''C''))]"

text \<open>
  Two requests within one millisecond whose \<^verbatim>\<open>Math.random()\<close> is the same, so that
  \<^verbatim>\<open>Date.now() + Math.random()\<close> is the same number, with payloads that decode to
  \<^verbatim>\<open>A\<close> and to \<^verbatim>\<open>B\<close>; a world in which the object store serves \<open>bytes\<close> at \<open>url\<close>
  and nothing elsewhere; a row whose prompt is markup.
\<close>

definition post_A :: "mem_env \<times> request" where
  "post_A = (mem_world (upstream_data ''inlineData'' ''QQ=='') 1000 0, PostGenerate (prompt_body ''A''))"

definition post_B :: "mem_env \<times> request" where
  "post_B = (mem_world (upstream_data ''inlineData'' ''Qg=='') 1000 0, PostGenerate (prompt_body ''B''))"

definition serving_world :: "string \<Rightarrow> bytes \<Rightarrow> pers_env" where
  "serving_world url bytes =
     pers_world image_data 9000 0
       \<lparr> http_get := (\<lambda>u. if u = url then GetOk (Some bytes) else GetNotOk) \<rparr>"

definition script_row :: row where
  "script_row = sample_row ''<script>alert(1)</script>'' 1000"


section \<open>The first part of POST /api/generate, branch by branch\<close>

lemma generate_image_falsy:
  "prompt_of req_body = Some p \<Longrightarrow> \<not> truthy p \<Longrightarrow>
   generate_image cfg rt env req_body = Answered (json_response 400 (error_json ''prompt required'')) []"
  by (simp add: generate_image_def)

lemma generate_image_no_key:
  "prompt_of req_body = Some p \<Longrightarrow> truthy p \<Longrightarrow> base_image env = File baseImage \<Longrightarrow>
   \<not> key_configured cfg \<Longrightarrow>
   generate_image cfg rt env req_body = Answered (png_response baseImage) []"
  by (simp add: generate_image_def)



lemma generate_image_decoded:
  "prompt_of req_body = Some p \<Longrightarrow> truthy p \<Longrightarrow> base_image env = File baseImage \<Longrightarrow>
   key_configured cfg \<Longrightarrow> upstream env = OkBody (Some data) \<Longrightarrow> find_b64 data = Some b64 \<Longrightarrow>
   buffer_from rt b64 = Some imgBuffer \<Longrightarrow>
   generate_image cfg rt env req_body =
     Decoded p b64 imgBuffer
       [UpstreamFetch (generate_url cfg) (api_key_header cfg) (requestBody rt p baseImage)]"
  by (simp add: generate_image_def)

text \<open>Whatever the first part answers by itself, it is not the image of a stored record:
  a decoded image always comes with a truthy prompt.\<close>

lemma generate_image_Decoded_truthy:
  "generate_image cfg rt env req_body = Decoded p b64 buf effs \<Longrightarrow> truthy p"
  by (auto simp: generate_image_def Let_def
           split: option.splits if_splits fs_entry.splits upstream_result.splits)

section \<open>The concrete values\<close>

lemma sample_key [simp]: "key_configured sample_cfg" "api_key_header sample_cfg = ''k''"
  by (simp_all add: key_configured_def api_key_header_def sample_cfg_def)

lemma sample_prompt [simp]: "prompt_of (prompt_body p) = Some (JStr p)"
  by (simp add: prompt_of_def prompt_body_def)

lemma sample_missing_prompt [simp]: "prompt_of (JObj []) = Some JUndefined" "prompt_of JUndefined = Some JUndefined"
  by (simp_all add: prompt_of_def)

lemma sample_mem_world [simp]:
  "base_image (mem_world data t r) = File ''PNG''" "upstream (mem_world data t r) = OkBody (Some data)"
  "fresh_id (mem_world data t r) = of_int t + r" "now (mem_world data t r) = t"
  "file_write_ok (mem_world data t r)"
  by (simp_all add: mem_world_def)

lemma sample_pers_world [simp]:
  "base_image (pers_world data t r) = File ''PNG''" "upstream (pers_world data t r) = OkBody (Some data)"
  "fresh_id (pers_world data t r) = of_int t + r" "db_ok (pers_world data t r)"
  "db_now (pers_world data t r) = t"
  "upload_result (pers_world data t r) =
     Some (''https://res.cloudinary.com/demo/degenify/'' @ decimal_string (Finite (of_int t + r)) @ ''.png'',
           ''degenify/degenify/'' @ decimal_string (Finite (of_int t + r)))"
  "req_protocol (pers_world data t r) = ''https''" "req_host (pers_world data t r) = ''degenify.example''"
  "date_now (pers_world data t r) = t"
  by (simp_all add: pers_world_def)

lemma sample_find_b64 [simp]:
  "find_b64 (upstream_data ''inlineData'' b64) = (if b64 = [] then None else Some (JStr b64))"
  "find_b64 (upstream_data ''inline_data'' b64) = (if b64 = [] then None else Some (JStr b64))"
  "find_b64 text_only_data = None"
  by (simp_all add: find_b64_def upstream_data_def text_only_data_def response_parts_def
        opt_prop_def opt_index0_def part_payload_def)

lemma sample_rt_fields [simp]:
  "b64_decode sample_rt = base64_decode" "b64_encode sample_rt = base64_encode"
  "to_number sample_rt = decimal_number" "number_to_string sample_rt = decimal_string"
  by (simp_all add: sample_rt_def)

declare base64_decode.simps [simp del] base64_encode.simps [simp del]

lemma sample_base64 [simp]:
  "base64_decode ''QQ=='' = ''A''" "base64_decode ''Qg=='' = ''B''" "base64_decode ''QUJD'' = ''ABC''"
  "base64_encode ''A'' = ''QQ==''" "base64_encode ''B'' = ''Qg==''" "base64_encode ''ABC'' = ''QUJD''"
  by code_simp+

lemma sample_decimal [simp]:
  "decimal_number ''7'' = Finite 7" "decimal_number ''1000'' = Finite 1000"
  "decimal_string (Finite 1000) = ''1000''" "decimal_string (Finite 2000) = ''2000''"
  "decimal_string (Finite 3000) = ''3000''" "decimal_string (Finite 9000) = ''9000''"
  by (simp_all add: decimal_number_def decimal_string_def)

section \<open>The concrete base64 codec\<close>

lemma index_in_nth: "distinct xs \<Longrightarrow> n < length xs \<Longrightarrow> index_in (xs ! n) xs = n"
proof (induction xs arbitrary: n)
  case Nil
  then show ?case by simp
next
  case (Cons x xs)
  then show ?case
    by (cases n) (auto simp: nth_eq_iff_index_eq)
qed

lemma b64_alphabet_facts:
  "distinct b64_alphabet" "length b64_alphabet = 64" "CHR ''='' \<notin> set b64_alphabet"
  by (simp_all add: b64_alphabet_def)

lemma char_sextet_inverse: "char_sextet (sextet_char n) = n mod 64"
  by (simp add: char_sextet_def sextet_char_def index_in_nth b64_alphabet_facts)

lemma sextet_char_not_pad: "sextet_char n \<noteq> CHR ''=''"
proof -
  have "sextet_char n \<in> set b64_alphabet"
    by (simp add: sextet_char_def b64_alphabet_facts)
  with b64_alphabet_facts(3) show ?thesis by auto
qed

lemma byte_bound: "(of_char c :: nat) < 256"
proof -
  have "(of_char c :: nat) mod 256 < 256"
    by simp
  then show ?thesis
    by (simp only: of_char_mod_256)
qed

lemma split16:
  fixes x y :: nat
  assumes "y < 16"
  shows "(x * 16 + y) div 16 = x" and "(x * 16 + y) mod 16 = y"
  using assms by simp_all

lemma split4:
  fixes x y :: nat
  assumes "y < 4"
  shows "(x * 4 + y) div 4 = x" and "(x * 4 + y) mod 4 = y"
  using assms by simp_all

lemma byte_parts:
  fixes a :: nat
  assumes "a < 256"
  shows "a div 4 < 64" and "a div 16 < 16" and "a div 64 < 4"
  using assms by (simp_all add: less_mult_imp_div_less)

text \<open>The four sextets of three bytes, and the bytes read back from them.\<close>

lemma sextets_of_bytes:
  fixes a b c s1 s2 s3 s4 :: nat
  assumes "a < 256" and "b < 256" and "c < 256"
    and "s1 = a div 4" and "s2 = a mod 4 * 16 + b div 16" and "s3 = b mod 16 * 4 + c div 64"
    and "s4 = c mod 64"
  shows "s1 < 64" and "s2 < 64" and "s3 < 64" and "s4 < 64"
    and "s1 * 4 + s2 div 16 = a" and "s2 mod 16 * 16 + s3 div 4 = b" and "s3 mod 4 * 64 + s4 = c"
proof -
  note parts = byte_parts [OF assms(1)] byte_parts [OF assms(2)] byte_parts [OF assms(3)]
  have m: "a mod 4 < 4" "b mod 16 < 16" by simp_all
  show "s1 < 64" using parts by (simp add: assms(4))
  show "s2 < 64" using parts(5) m(1) unfolding assms(5) by linarith
  show "s3 < 64" using parts(9) m(2) unfolding assms(6) by linarith
  show "s4 < 64" by (simp add: assms(7))
  show "s1 * 4 + s2 div 16 = a"
    unfolding assms(4,5) by (simp add: split16 [OF parts(5)] parts(5))
  show "s2 mod 16 * 16 + s3 div 4 = b"
    unfolding assms(5,6) by (simp add: split16 [OF parts(5)] split4 [OF parts(9)] parts(5))
  show "s3 mod 4 * 64 + s4 = c"
    unfolding assms(6,7) by (simp add: split4 [OF parts(9)] parts(9))
qed

lemma char_sextet_small: "n < 64 \<Longrightarrow> char_sextet (sextet_char n) = n"
  by (simp add: char_sextet_inverse)

text \<open>Decoding what the encoder wrote gives the bytes back.\<close>

lemma base64_round_trip: "base64_decode (base64_encode bs) = bs"
proof (induction bs rule: base64_encode.induct)
  case (1 a b c rest)
  define s1 s2 s3 s4 :: nat where "s1 = of_char a div 4"
    and "s2 = of_char a mod 4 * 16 + of_char b div 16"
    and "s3 = of_char b mod 16 * 4 + of_char c div 64"
    and "s4 = of_char c mod 64"
  note s = sextets_of_bytes [OF byte_bound byte_bound byte_bound s1_def s2_def s3_def s4_def]
  have "base64_encode (a # b # c # rest)
      = sextet_char s1 # sextet_char s2 # sextet_char s3 # sextet_char s4 # base64_encode rest"
    by (simp add: base64_encode.simps s1_def s2_def s3_def s4_def)
  then have "base64_decode (base64_encode (a # b # c # rest))
      = [char_of (s1 * 4 + s2 div 16), char_of (s2 mod 16 * 16 + s3 div 4), char_of (s3 mod 4 * 64 + s4)]
          @ base64_decode (base64_encode rest)"
    by (simp add: base64_decode.simps sextet_char_not_pad char_sextet_small s(1-4))
  then show ?case
    by (simp only: s(5-7) char_of_char "1.IH") simp
next
  case (2 a b)
  define s1 s2 s3 s4 :: nat where "s1 = of_char a div 4"
    and "s2 = of_char a mod 4 * 16 + of_char b div 16"
    and "s3 = of_char b mod 16 * 4 + of_char (CHR 0x00) div 64"
    and "s4 = of_char (CHR 0x00) mod 64"
  note s = sextets_of_bytes [OF byte_bound byte_bound byte_bound s1_def s2_def s3_def s4_def]
  have s3: "s3 = of_char b mod 16 * 4"
    by (simp add: s3_def)
  have "base64_encode [a, b] = [sextet_char s1, sextet_char s2, sextet_char s3, CHR ''='']"
    by (simp add: base64_encode.simps s1_def s2_def s3)
  then have "base64_decode (base64_encode [a, b])
      = [char_of (s1 * 4 + s2 div 16), char_of (s2 mod 16 * 16 + s3 div 4)]"
    by (simp add: base64_decode.simps sextet_char_not_pad char_sextet_small s(1-4))
  then show ?case
    by (simp only: s(5-6) char_of_char)
next
  case (3 a)
  define s1 s2 s3 s4 :: nat where "s1 = of_char a div 4"
    and "s2 = of_char a mod 4 * 16 + of_char (CHR 0x00) div 16"
    and "s3 = of_char (CHR 0x00) mod 16 * 4 + of_char (CHR 0x00) div 64"
    and "s4 = of_char (CHR 0x00) mod 64"
  note s = sextets_of_bytes [OF byte_bound byte_bound byte_bound s1_def s2_def s3_def s4_def]
  have s2: "s2 = of_char a mod 4 * 16"
    by (simp add: s2_def)
  have "base64_encode [a] = [sextet_char s1, sextet_char s2, CHR ''='', CHR ''='']"
    by (simp add: base64_encode.simps s1_def s2)
  then have "base64_decode (base64_encode [a]) = [char_of (s1 * 4 + s2 div 16)]"
    by (simp add: base64_decode.simps sextet_char_not_pad char_sextet_small s(1-4))
  then show ?case
    by (simp only: s(5) char_of_char)
next
  case 4
  then show ?case
    by (simp add: base64_encode.simps base64_decode.simps)
qed

section \<open>C2: a request without a prompt\<close>

text \<open>
  C2. For every request to POST /api/generate whose prompt is missing (the body has no
  prompt, or there is no body) or empty (the prompt is the empty string), both servers
  answer 400 with the error "prompt required", leave the stored records as they are and
  make no call to the outside: no request to the generation endpoint, no write, no upload.
\<close>

theorem generate_rejects_missing_prompt:
  assumes "prompt_of req_body = Some JUndefined \<or> prompt_of req_body = Some (JStr [])"
  shows "generate cfg rt env req_body s =
           (\<lparr> status = 400, headers = [], body = JsonBody (JObj [(''error'', JStr ''prompt required'')]) \<rparr>, s, [])
       \<and> generate_p cfg rt env_p req_body table =
           (\<lparr> status = 400, headers = [], body = JsonBody (JObj [(''error'', JStr ''prompt required'')]) \<rparr>, table, [])"
  using assms
  by (auto simp: generate_def generate_p_def generate_image_falsy json_response_def error_json_def)

theorem generate_rejects_missing_prompt_witness:
  "(prompt_of (JObj []) = Some JUndefined \<or> prompt_of (JObj []) = Some (JStr []))
   \<and> generate sample_cfg sample_rt (mem_world text_only_data 1000 0) (JObj []) empty_state =
        (\<lparr> status = 400, headers = [], body = JsonBody (JObj [(''error'', JStr ''prompt required'')]) \<rparr>,
         empty_state, [])
   \<and> generate_p sample_cfg sample_rt (pers_world text_only_data 1000 0) (JObj []) [] =
        (\<lparr> status = 400, headers = [], body = JsonBody (JObj [(''error'', JStr ''prompt required'')]) \<rparr>,
         [], [])"
proof -
  have h: "prompt_of (JObj []) = Some JUndefined \<or> prompt_of (JObj []) = Some (JStr [])"
    by simp
  from generate_rejects_missing_prompt [OF h] h show ?thesis
    by blast
qed

section \<open>C10: the fallback without a credential\<close>

text \<open>
  C10. If the API credential GOOGLE_API_KEY is not configured (unset or empty), then for
  every request with a non-empty (truthy) prompt that finds the base image file, both
  servers answer 200 with the bytes of the base image, unmodified, as image/png, make no
  call to the generation endpoint (nor any other call), and create no record.
\<close>

theorem generate_without_credential:
  assumes "\<not> key_configured cfg"
    and "prompt_of req_body = Some p" and "truthy p"
    and "base_image env = File baseImage" and "base_image env_p = File baseImage_p"
  shows "generate cfg rt env req_body s =
           (\<lparr> status = 200, headers = [(''Content-Type'', ''image/png'')], body = BufferBody baseImage \<rparr>, s, [])
       \<and> generate_p cfg rt env_p req_body table =
           (\<lparr> status = 200, headers = [(''Content-Type'', ''image/png'')], body = BufferBody baseImage_p \<rparr>,
            table, [])"
  using assms
  by (simp add: generate_def generate_p_def generate_image_no_key png_response_def)

theorem generate_without_credential_witness:
  "\<not> key_configured (sample_cfg \<lparr> GOOGLE_API_KEY := None \<rparr>)
   \<and> prompt_of (prompt_body ''a cat'') = Some (JStr ''a cat'') \<and> truthy (JStr ''a cat'')
   \<and> base_image (mem_world text_only_data 1000 0) = File ''PNG''
   \<and> base_image (pers_world text_only_data 1000 0) = File ''PNG''
   \<and> generate (sample_cfg \<lparr> GOOGLE_API_KEY := None \<rparr>) sample_rt (mem_world text_only_data 1000 0)
        (prompt_body ''a cat'') empty_state =
        (\<lparr> status = 200, headers = [(''Content-Type'', ''image/png'')], body = BufferBody ''PNG'' \<rparr>,
         empty_state, [])
   \<and> generate_p (sample_cfg \<lparr> GOOGLE_API_KEY := None \<rparr>) sample_rt (pers_world text_only_data 1000 0)
        (prompt_body ''a cat'') [] =
        (\<lparr> status = 200, headers = [(''Content-Type'', ''image/png'')], body = BufferBody ''PNG'' \<rparr>, [], [])"
proof -
  have k: "\<not> key_configured (sample_cfg \<lparr> GOOGLE_API_KEY := None \<rparr>)"
    by (simp add: key_configured_def)
  have p: "prompt_of (prompt_body ''a cat'') = Some (JStr ''a cat'')" and t: "truthy (JStr ''a cat'')"
    by simp_all
  have b: "base_image (mem_world text_only_data 1000 0) = File ''PNG''"
    and b': "base_image (pers_world text_only_data 1000 0) = File ''PNG''"
    by simp_all
  from generate_without_credential [OF k p t b b'] k p t b b' show ?thesis
    by blast
qed

section \<open>The search of the upstream answer\<close>




lemma not_carries_null: "\<not> carries_payload JNull k" "\<not> carries_payload JUndefined k"
  by (simp_all add: carries_payload_def opt_prop_def)



lemma scan_parts_truthy: "scan_parts ps = Some b \<Longrightarrow> truthy b"
  by (induction ps) (auto simp: part_payload_def split: option.splits if_splits)

lemma find_b64_truthy: "find_b64 data = Some b \<Longrightarrow> truthy b"
  by (auto simp: find_b64_def dest: scan_parts_truthy split: option.splits js.splits)


section \<open>C3: no image in the upstream answer\<close>




section \<open>A successful generation\<close>

lemma buffer_from_string [simp]: "buffer_from rt (JStr s) = Some (b64_decode rt s)"
  by (simp add: buffer_from_def)

lemma to_string_string [simp]: "to_string rt (JStr s) = s"
  by (simp add: to_string_def)

lemma pg_text_string [simp]: "pg_text rt (JStr s) = s"
  by (simp add: pg_text_def)

lemma generate_success:
  assumes "prompt_of req_body = Some p" and "truthy p" and "key_configured cfg"
    and "base_image env = File baseImage" and "upstream env = OkBody (Some data)"
    and "find_b64 data = Some (JStr b64)"
  shows "generate cfg rt env req_body s =
           (png_response (b64_decode rt b64),
            \<lparr> generatedImages = generatedImages s @
                 [\<lparr> id' = fresh_id env, prompt = p, imageData = b64_encode rt (b64_decode rt b64),
                    timestamp = now env \<rparr>],
              gallery_file =
                (if file_write_ok env
                 then Some (generatedImages s @
                   [\<lparr> id' = fresh_id env, prompt = p, imageData = b64_encode rt (b64_decode rt b64),
                      timestamp = now env \<rparr>])
                 else gallery_file s) \<rparr>,
            [UpstreamFetch (generate_url cfg) (api_key_header cfg) (requestBody rt p baseImage),
             GalleryFileWrite])"
  using generate_image_decoded [OF assms(1,2,4,3,5,6), of rt "b64_decode rt b64"]
  by (simp add: generate_def Let_def)

lemma generate_p_success:
  assumes "prompt_of req_body = Some p" and "truthy p" and "key_configured cfg"
    and "base_image env = File baseImage" and "upstream env = OkBody (Some data)"
    and "find_b64 data = Some (JStr b64)"
    and "upload_result env = Some (secure_url, public_id)"
    and "db_ok env" and "number_to_string rt (Finite (fresh_id env)) \<notin> row_id ` set table"
    and "length (number_to_string rt (Finite (fresh_id env))) \<le> 255" and "length public_id \<le> 255"
  shows "generate_p cfg rt env req_body table =
           (png_response (b64_decode rt b64),
            table @ [\<lparr> row_id = number_to_string rt (Finite (fresh_id env)), row_prompt = pg_text rt p,
                        cloudinary_url = secure_url, cloudinary_public_id = public_id,
                        row_timestamp = db_now env \<rparr>],
            [UpstreamFetch (generate_url cfg) (api_key_header cfg) (requestBody rt p baseImage),
             CloudinaryUpload (''data:image/png;base64,'' @ b64)
               (''degenify/'' @ number_to_string rt (Finite (fresh_id env)))])"
  using generate_image_decoded [OF assms(1,2,4,3,5,6), of rt "b64_decode rt b64"] assms(7-11)
  by (simp add: generate_p_def Let_def insert_row_def)

lemma generate_p_upload_fails:
  assumes "prompt_of req_body = Some p" and "truthy p" and "key_configured cfg"
    and "base_image env = File baseImage" and "upstream env = OkBody (Some data)"
    and "find_b64 data = Some (JStr b64)"
    and "upload_result env = None"
  shows "generate_p cfg rt env req_body table =
           (server_error, table,
            [UpstreamFetch (generate_url cfg) (api_key_header cfg) (requestBody rt p baseImage),
             CloudinaryUpload (''data:image/png;base64,'' @ b64)
               (''degenify/'' @ number_to_string rt (Finite (fresh_id env)))])"
  using generate_image_decoded [OF assms(1,2,4,3,5,6), of rt "b64_decode rt b64"] assms(7)
  by (simp add: generate_p_def Let_def)

lemma mset_sortedImages: "mset (sortedImages s) = mset (generatedImages s)"
  by (simp add: sortedImages_def)

section \<open>C1: a generated image is stored once\<close>

text \<open>
  C1, as the code has it. For every non-empty prompt text, when the call to the
  generation endpoint succeeds and its answer carries an image payload (a base64
  string), the in-memory server answers 200 with the decoded image bytes as image/png
  and appends exactly one record, whose prompt is the submitted text, so that the
  gallery lists that record and the records it listed before; the persistent server
  answers the same and appends exactly one row with that prompt, provided the upload to
  the object store succeeds and the insert succeeds (the database is reachable, no row
  has the new id, and the id and the provider's identifier fit 255 characters).
\<close>

theorem generate_stores_one_record:
  assumes "prompt_of req_body = Some (JStr text)" and "text \<noteq> []" and "key_configured cfg"
    and "base_image env = File baseImage" and "upstream env = OkBody (Some data)"
    and "base_image env_p = File baseImage_p" and "upstream env_p = OkBody (Some data)"
    and "find_b64 data = Some (JStr b64)"
    and "upload_result env_p = Some (secure_url, public_id)"
    and "db_ok env_p" and "number_to_string rt (Finite (fresh_id env_p)) \<notin> row_id ` set table"
    and "length (number_to_string rt (Finite (fresh_id env_p))) \<le> 255" and "length public_id \<le> 255"
  shows "(\<exists>r s' effs.
            generate cfg rt env req_body s =
              (\<lparr> status = 200, headers = [(''Content-Type'', ''image/png'')],
                 body = BufferBody (b64_decode rt b64) \<rparr>, s', effs)
          \<and> generatedImages s' = generatedImages s @ [r] \<and> prompt r = JStr text
          \<and> mset (sortedImages s') = add_mset r (mset (sortedImages s)))
       \<and> (\<exists>r effs.
            generate_p cfg rt env_p req_body table =
              (\<lparr> status = 200, headers = [(''Content-Type'', ''image/png'')],
                 body = BufferBody (b64_decode rt b64) \<rparr>, table @ [r], effs)
          \<and> row_prompt r = text)"
proof -
  have t: "truthy (JStr text)"
    using assms(2) by simp
  show ?thesis
    using generate_success [OF assms(1) t assms(3,4,5,8), of rt s]
      generate_p_success [OF assms(1) t assms(3,6,7,8,9,10,11,12,13)]
    by (simp add: png_response_def mset_sortedImages)
qed

theorem generate_stores_one_record_witness:
  "prompt_of (prompt_body ''a cat'') = Some (JStr ''a cat'') \<and> ''a cat'' \<noteq> []
   \<and> key_configured sample_cfg
   \<and> base_image (mem_world (upstream_data ''inlineData'' ''QUJD'') 1000 0) = File ''PNG''
   \<and> upstream (mem_world (upstream_data ''inlineData'' ''QUJD'') 1000 0)
        = OkBody (Some (upstream_data ''inlineData'' ''QUJD''))
   \<and> base_image (pers_world (upstream_data ''inlineData'' ''QUJD'') 1000 0) = File ''PNG''
   \<and> upstream (pers_world (upstream_data ''inlineData'' ''QUJD'') 1000 0)
        = OkBody (Some (upstream_data ''inlineData'' ''QUJD''))
   \<and> find_b64 (upstream_data ''inlineData'' ''QUJD'') = Some (JStr ''QUJD'')
   \<and> upload_result (pers_world (upstream_data ''inlineData'' ''QUJD'') 1000 0)
        = Some (''https://res.cloudinary.com/demo/degenify/1000.png'', ''degenify/degenify/1000'')
   \<and> db_ok (pers_world (upstream_data ''inlineData'' ''QUJD'') 1000 0)
   \<and> number_to_string sample_rt (Finite 1000) = ''1000''
   \<and> (\<exists>r s' effs.
         generate sample_cfg sample_rt (mem_world (upstream_data ''inlineData'' ''QUJD'') 1000 0)
           (prompt_body ''a cat'') empty_state =
           (\<lparr> status = 200, headers = [(''Content-Type'', ''image/png'')], body = BufferBody ''ABC'' \<rparr>,
            s', effs)
       \<and> generatedImages s' = [r] \<and> prompt r = JStr ''a cat'')
   \<and> (\<exists>r effs.
         generate_p sample_cfg sample_rt (pers_world (upstream_data ''inlineData'' ''QUJD'') 1000 0)
           (prompt_body ''a cat'') [] =
           (\<lparr> status = 200, headers = [(''Content-Type'', ''image/png'')], body = BufferBody ''ABC'' \<rparr>,
            [r], effs)
       \<and> row_prompt r = ''a cat'')"
proof -
  let ?d = "upstream_data ''inlineData'' ''QUJD''"
  have p: "prompt_of (prompt_body ''a cat'') = Some (JStr ''a cat'')" and t: "''a cat'' \<noteq> []"
    and k: "key_configured sample_cfg"
    by simp_all
  have b: "base_image (mem_world ?d 1000 0) = File ''PNG''"
    and u: "upstream (mem_world ?d 1000 0) = OkBody (Some ?d)"
    and b': "base_image (pers_world ?d 1000 0) = File ''PNG''"
    and u': "upstream (pers_world ?d 1000 0) = OkBody (Some ?d)"
    and f: "find_b64 ?d = Some (JStr ''QUJD'')"
    by simp_all
  have up: "upload_result (pers_world ?d 1000 0)
              = Some (''https://res.cloudinary.com/demo/degenify/1000.png'', ''degenify/degenify/1000'')"
    and ok: "db_ok (pers_world ?d 1000 0)"
    and n: "number_to_string sample_rt (Finite 1000) = ''1000''"
    by simp_all
  have fresh: "number_to_string sample_rt (Finite (fresh_id (pers_world ?d 1000 0))) \<notin> row_id ` set []"
    and l1: "length (number_to_string sample_rt (Finite (fresh_id (pers_world ?d 1000 0)))) \<le> 255"
    and l2: "length ''degenify/degenify/1000'' \<le> 255"
    by simp_all
  from generate_stores_one_record [OF p t k b u b' u' f up ok fresh l1 l2, of empty_state]
  show ?thesis
    using p t k b u b' u' f up ok n by (simp add: empty_state_def) blast
qed

text \<open>
  C1 as stated fails on the persistent server: with the same successful upstream answer,
  an upload that throws is answered 500 and no row is inserted.
\<close>

theorem generate_stores_one_record_counterexample:
  "prompt_of (prompt_body ''a cat'') = Some (JStr ''a cat'')
   \<and> upstream (pers_world (upstream_data ''inlineData'' ''QUJD'') 1000 0 \<lparr> upload_result := None \<rparr>)
        = OkBody (Some (upstream_data ''inlineData'' ''QUJD''))
   \<and> find_b64 (upstream_data ''inlineData'' ''QUJD'') = Some (JStr ''QUJD'')
   \<and> generate_p sample_cfg sample_rt
        (pers_world (upstream_data ''inlineData'' ''QUJD'') 1000 0 \<lparr> upload_result := None \<rparr>)
        (prompt_body ''a cat'') [] =
        (\<lparr> status = 500, headers = [], body = JsonBody (JObj [(''error'', JStr ''server error'')]) \<rparr>,
         [],
         [UpstreamFetch (generate_url sample_cfg) ''k'' (requestBody sample_rt (JStr ''a cat'') ''PNG''),
          CloudinaryUpload ''data:image/png;base64,QUJD'' ''degenify/1000''])"
proof -
  let ?d = "upstream_data ''inlineData'' ''QUJD''"
  let ?env = "pers_world ?d 1000 0 \<lparr> upload_result := None \<rparr>"
  have p: "prompt_of (prompt_body ''a cat'') = Some (JStr ''a cat'')" and t: "truthy (JStr ''a cat'')"
    and k: "key_configured sample_cfg"
    and b: "base_image ?env = File ''PNG''" and u: "upstream ?env = OkBody (Some ?d)"
    and f: "find_b64 ?d = Some (JStr ''QUJD'')" and up: "upload_result ?env = None"
    by simp_all
  from generate_p_upload_fails [OF p t k b u f up, of sample_rt "[]"] p u f show ?thesis
    by (simp add: server_error_def json_response_def error_json_def)
qed

section \<open>The gallery listing\<close>

lemma insort_key_last:
  "\<forall>y\<in>set ys. f y < f x \<Longrightarrow> insort_key f x ys = ys @ [x]"
  by (induction ys) auto

lemma sort_key_desc_rev:
  fixes ts :: "'a \<Rightarrow> int"
  shows "sorted_wrt (\<lambda>a b. ts a < ts b) xs \<Longrightarrow> sort_key (\<lambda>x. - ts x) xs = rev xs"
proof (induction xs)
  case Nil
  then show ?case by simp
next
  case (Cons x xs)
  then have "sort_key (\<lambda>x. - ts x) xs = rev xs" and "\<forall>y\<in>set (rev xs). - ts y < - ts x"
    by auto
  then show ?case
    by (simp add: insort_key_last)
qed

lemma sorted_desc_sort_key:
  fixes ts :: "'a \<Rightarrow> int"
  shows "sorted_wrt (\<lambda>a b. ts b \<le> ts a) (sort_key (\<lambda>x. - ts x) xs)"
proof -
  have "sorted (map (\<lambda>x. - ts x) (sort_key (\<lambda>x. - ts x) xs))"
    by (rule sorted_sort_key)
  then show ?thesis
    by (simp add: sorted_map)
qed

lemma sort_key_desc_ties:
  fixes ts :: "'a \<Rightarrow> int"
  shows "filter (\<lambda>x. ts x = t) (sort_key (\<lambda>x. - ts x) xs) = filter (\<lambda>x. ts x = t) xs"
  using sort_key_stable [of "\<lambda>x. - ts x" "- t" xs] by simp

text \<open>An answer of the ordered query to a table whose timestamps strictly increase
  is the table reversed.\<close>

lemma order_by_desc_unique:
  assumes "order_by_timestamp_desc table rows"
    and "sorted_wrt (\<lambda>a b. row_timestamp a < row_timestamp b) table"
  shows "rows = rev table"
proof -
  let ?f = "\<lambda>r. - row_timestamp r"
  from assms(1) have m: "mset rows = mset table"
    and srt: "sorted_wrt (\<lambda>a b. row_timestamp b \<le> row_timestamp a) rows"
    by (simp_all add: order_by_timestamp_desc_def)
  from assms(2) have strict: "sorted_wrt (\<lambda>a b. ?f a < ?f b) (rev table)"
    by (simp add: sorted_wrt_rev)
  then have "sorted_wrt (<) (map ?f (rev table))"
    by (simp add: sorted_wrt_map)
  then have d_tab: "distinct (map ?f (rev table))" and s_tab: "sorted (map ?f (rev table))"
    by (simp_all add: strict_sorted_iff)
  have "mset (map ?f rows) = mset (map ?f (rev table))"
    using m by simp
  with d_tab have d_rows: "distinct (map ?f rows)"
    by (metis mset_eq_imp_distinct_iff)
  have s_rows: "sorted (map ?f rows)"
    using srt by (simp add: sorted_map)
  have set_eq: "set rows = set (rev table)"
    using m by (metis mset_eq_setD set_rev)
  have inj: "inj_on ?f (set rows \<union> set (rev table))"
    using d_tab set_eq by (simp add: distinct_map)
  from map_sorted_distinct_set_unique [OF inj s_rows d_rows s_tab d_tab set_eq]
  show ?thesis .
qed

section \<open>The three requests\<close>

lemma sample_image_data [simp]: "find_b64 image_data = Some (JStr ''QUJD'')"
  by (simp add: image_data_def)

lemma sample_generate:
  "p \<noteq> [] \<Longrightarrow>
   generate sample_cfg sample_rt (mem_world image_data t r) (prompt_body p) s =
     (png_response ''ABC'',
      \<lparr> generatedImages = generatedImages s @ [sample_image p t r],
        gallery_file = Some (generatedImages s @ [sample_image p t r]) \<rparr>,
      [UpstreamFetch (generate_url sample_cfg) ''k'' (requestBody sample_rt (JStr p) ''PNG''),
       GalleryFileWrite])"
  using generate_success [of "prompt_body p" "JStr p" sample_cfg "mem_world image_data t r" "''PNG''"
      image_data "''QUJD''" sample_rt s]
  by (simp add: sample_image_def)

lemma sample_generate_p:
  assumes "p \<noteq> []" and "decimal_string (Finite (of_int t)) \<notin> row_id ` set table"
    and "length (decimal_string (Finite (of_int t))) \<le> 200"
  shows "generate_p sample_cfg sample_rt (pers_world image_data t 0) (prompt_body p) table =
     (png_response ''ABC'', table @ [sample_row p t],
      [UpstreamFetch (generate_url sample_cfg) ''k'' (requestBody sample_rt (JStr p) ''PNG''),
       CloudinaryUpload ''data:image/png;base64,QUJD'' (''degenify/'' @ decimal_string (Finite (of_int t)))])"
  using generate_p_success [of "prompt_body p" "JStr p" sample_cfg "pers_world image_data t 0" "''PNG''"
      image_data "''QUJD''"
      "''https://res.cloudinary.com/demo/degenify/'' @ decimal_string (Finite (of_int t)) @ ''.png''"
      "''degenify/degenify/'' @ decimal_string (Finite (of_int t))" sample_rt table] assms
  by (simp add: sample_row_def)

lemma run_three_posts:
  "run sample_cfg sample_rt (three_posts tA tB tC) empty_state =
     \<lparr> generatedImages =
         [sample_image ''A'' tA (1 / 4), sample_image ''B'' tB (1 / 2), sample_image ''C'' tC (3 / 4)],
       gallery_file =
         Some [sample_image ''A'' tA (1 / 4), sample_image ''B'' tB (1 / 2), sample_image ''C'' tC (3 / 4)] \<rparr>"
  by (simp add: three_posts_def sample_generate empty_state_def)

lemma run_three_posts_p:
  "run_p sample_cfg sample_rt (three_posts_p 1000 2000 3000) [] =
     [sample_row ''A'' 1000, sample_row ''B'' 2000, sample_row ''C'' 3000]"
  by (simp add: three_posts_p_def sample_generate_p sample_row_def)

section \<open>C4: the gallery lists the newest first\<close>

text \<open>
  C4, as the code has it. GET /api/gallery of the in-memory server answers 200 with all
  stored records, none left out and none twice, in descending order of timestamp; with
  no record the list is empty; records with equal timestamps keep the order in which
  they were stored; and when the timestamps strictly increase in the order of storing,
  the list is the store reversed, so that A, B, C stored in that order with
  timestamps A < B < C are listed [C, B, A]. The persistent server answers the same
  with the rows the database returns for its ordered query, whenever that query
  succeeds, and leaves the order of rows with equal timestamps to the database.
\<close>

theorem gallery_newest_first:
  "gallery rt s = \<lparr> status = 200, headers = [],
                    body = JsonBody (JArr (map (image_json rt) (sortedImages s))) \<rparr>
   \<and> mset (sortedImages s) = mset (generatedImages s)
   \<and> sorted_wrt (\<lambda>a b. timestamp b \<le> timestamp a) (sortedImages s)
   \<and> (generatedImages s = [] \<longrightarrow>
        gallery rt s = \<lparr> status = 200, headers = [], body = JsonBody (JArr []) \<rparr>)
   \<and> (\<forall>t. filter (\<lambda>img. timestamp img = t) (sortedImages s)
          = filter (\<lambda>img. timestamp img = t) (generatedImages s))
   \<and> (sorted_wrt (\<lambda>a b. timestamp a < timestamp b) (generatedImages s) \<longrightarrow>
        sortedImages s = rev (generatedImages s))
   \<and> (\<forall>A B C. generatedImages s = [A, B, C] \<and> timestamp A < timestamp B \<and> timestamp B < timestamp C \<longrightarrow>
        sortedImages s = [C, B, A])
   \<and> (db_ok env \<and> order_by_timestamp_desc table (select_all env) \<longrightarrow>
        gallery_p rt env = \<lparr> status = 200, headers = [],
                              body = JsonBody (JArr (map (row_json rt) (select_all env))) \<rparr>
      \<and> mset (select_all env) = mset table
      \<and> sorted_wrt (\<lambda>a b. row_timestamp b \<le> row_timestamp a) (select_all env)
      \<and> (table = [] \<longrightarrow> gallery_p rt env = \<lparr> status = 200, headers = [], body = JsonBody (JArr []) \<rparr>)
      \<and> (sorted_wrt (\<lambda>a b. row_timestamp a < row_timestamp b) table \<longrightarrow> select_all env = rev table))"
proof (intro conjI impI allI)
  show "gallery rt s = \<lparr> status = 200, headers = [],
                         body = JsonBody (JArr (map (image_json rt) (sortedImages s))) \<rparr>"
    by (simp add: gallery_def json_response_def)
  show "mset (sortedImages s) = mset (generatedImages s)"
    by (rule mset_sortedImages)
  show "sorted_wrt (\<lambda>a b. timestamp b \<le> timestamp a) (sortedImages s)"
    unfolding sortedImages_def by (rule sorted_desc_sort_key)
  show "gallery rt s = \<lparr> status = 200, headers = [], body = JsonBody (JArr []) \<rparr>"
    if "generatedImages s = []"
    using that by (simp add: gallery_def json_response_def sortedImages_def)
  show "filter (\<lambda>img. timestamp img = t) (sortedImages s)
          = filter (\<lambda>img. timestamp img = t) (generatedImages s)" for t
    unfolding sortedImages_def by (rule sort_key_desc_ties)
  show "sortedImages s = rev (generatedImages s)"
    if "sorted_wrt (\<lambda>a b. timestamp a < timestamp b) (generatedImages s)"
    using that unfolding sortedImages_def by (rule sort_key_desc_rev)
  show "sortedImages s = [C, B, A]"
    if "generatedImages s = [A, B, C] \<and> timestamp A < timestamp B \<and> timestamp B < timestamp C"
    for A B C
    using that sort_key_desc_rev [of timestamp "[A, B, C]"] by (simp add: sortedImages_def)
next
  assume h: "db_ok env \<and> order_by_timestamp_desc table (select_all env)"
  then show "gallery_p rt env = \<lparr> status = 200, headers = [],
                              body = JsonBody (JArr (map (row_json rt) (select_all env))) \<rparr>"
    by (simp add: gallery_p_def json_response_def)
  from h show "mset (select_all env) = mset table"
    and "sorted_wrt (\<lambda>a b. row_timestamp b \<le> row_timestamp a) (select_all env)"
    by (simp_all add: order_by_timestamp_desc_def)
  show "gallery_p rt env = \<lparr> status = 200, headers = [], body = JsonBody (JArr []) \<rparr>" if "table = []"
    using h that by (simp add: gallery_p_def json_response_def order_by_timestamp_desc_def)
  show "select_all env = rev table" if "sorted_wrt (\<lambda>a b. row_timestamp a < row_timestamp b) table"
    using h that by (simp add: order_by_desc_unique)
qed

theorem gallery_newest_first_witness:
  "generatedImages (run sample_cfg sample_rt (three_posts 1000 2000 3000) empty_state)
     = [sample_image ''A'' 1000 (1 / 4), sample_image ''B'' 2000 (1 / 2), sample_image ''C'' 3000 (3 / 4)]
   \<and> timestamp (sample_image ''A'' 1000 (1 / 4)) < timestamp (sample_image ''B'' 2000 (1 / 2))
   \<and> timestamp (sample_image ''B'' 2000 (1 / 2)) < timestamp (sample_image ''C'' 3000 (3 / 4))
   \<and> gallery sample_rt (run sample_cfg sample_rt (three_posts 1000 2000 3000) empty_state)
     = \<lparr> status = 200, headers = [],
         body = JsonBody (JArr (map (image_json sample_rt)
           [sample_image ''C'' 3000 (3 / 4), sample_image ''B'' 2000 (1 / 2),
            sample_image ''A'' 1000 (1 / 4)])) \<rparr>
   \<and> generatedImages empty_state = []
   \<and> gallery sample_rt empty_state = \<lparr> status = 200, headers = [], body = JsonBody (JArr []) \<rparr>
   \<and> db_ok (pers_world image_data 4000 0
        \<lparr> select_all := [sample_row ''C'' 3000, sample_row ''B'' 2000, sample_row ''A'' 1000] \<rparr>)
   \<and> order_by_timestamp_desc (run_p sample_cfg sample_rt (three_posts_p 1000 2000 3000) [])
        [sample_row ''C'' 3000, sample_row ''B'' 2000, sample_row ''A'' 1000]
   \<and> gallery_p sample_rt (pers_world image_data 4000 0
        \<lparr> select_all := [sample_row ''C'' 3000, sample_row ''B'' 2000, sample_row ''A'' 1000] \<rparr>)
     = \<lparr> status = 200, headers = [],
         body = JsonBody (JArr (map (row_json sample_rt)
           [sample_row ''C'' 3000, sample_row ''B'' 2000, sample_row ''A'' 1000])) \<rparr>"
proof -
  let ?s = "run sample_cfg sample_rt (three_posts 1000 2000 3000) empty_state"
  let ?rows = "[sample_row ''C'' 3000, sample_row ''B'' 2000, sample_row ''A'' 1000]"
  let ?env = "pers_world image_data 4000 0 \<lparr> select_all := ?rows \<rparr>"
  let ?table = "run_p sample_cfg sample_rt (three_posts_p 1000 2000 3000) []"
  have store: "generatedImages ?s
      = [sample_image ''A'' 1000 (1 / 4), sample_image ''B'' 2000 (1 / 2), sample_image ''C'' 3000 (3 / 4)]"
    by (simp add: run_three_posts)
  have times: "timestamp (sample_image ''A'' 1000 (1 / 4)) < timestamp (sample_image ''B'' 2000 (1 / 2))"
    "timestamp (sample_image ''B'' 2000 (1 / 2)) < timestamp (sample_image ''C'' 3000 (3 / 4))"
    by (simp_all add: sample_image_def)
  have ok: "db_ok ?env"
    by simp
  have ordered: "order_by_timestamp_desc ?table (select_all ?env)"
    by (simp add: run_three_posts_p order_by_timestamp_desc_def sample_row_def)
  note g = gallery_newest_first [of sample_rt ?s ?env ?table]
  from g store times have "sortedImages ?s
      = [sample_image ''C'' 3000 (3 / 4), sample_image ''B'' 2000 (1 / 2), sample_image ''A'' 1000 (1 / 4)]"
    by blast
  with g have listing: "gallery sample_rt ?s
      = \<lparr> status = 200, headers = [],
          body = JsonBody (JArr (map (image_json sample_rt)
            [sample_image ''C'' 3000 (3 / 4), sample_image ''B'' 2000 (1 / 2), sample_image ''A'' 1000 (1 / 4)])) \<rparr>"
    by simp
  from g ok ordered have listing_p: "gallery_p sample_rt ?env
      = \<lparr> status = 200, headers = [],
          body = JsonBody (JArr (map (row_json sample_rt) (select_all ?env))) \<rparr>"
    by blast
  have empty: "generatedImages empty_state = []"
    by (simp add: empty_state_def)
  with gallery_newest_first [of sample_rt empty_state ?env ?table]
  have listing_empty: "gallery sample_rt empty_state = \<lparr> status = 200, headers = [], body = JsonBody (JArr []) \<rparr>"
    by blast
  show ?thesis
    using store times listing empty listing_empty ok ordered listing_p
    by simp
qed

text \<open>
  C4 as stated fails when the clock does not advance between the requests: A, B and C
  stored in that order within one millisecond are listed [A, B, C].
\<close>

theorem gallery_newest_first_counterexample:
  "generatedImages (run sample_cfg sample_rt (three_posts 1000 1000 1000) empty_state)
     = [sample_image ''A'' 1000 (1 / 4), sample_image ''B'' 1000 (1 / 2), sample_image ''C'' 1000 (3 / 4)]
   \<and> gallery sample_rt (run sample_cfg sample_rt (three_posts 1000 1000 1000) empty_state)
     = \<lparr> status = 200, headers = [],
         body = JsonBody (JArr (map (image_json sample_rt)
           [sample_image ''A'' 1000 (1 / 4), sample_image ''B'' 1000 (1 / 2), sample_image ''C'' 1000 (3 / 4)])) \<rparr>
   \<and> [sample_image ''A'' 1000 (1 / 4), sample_image ''B'' 1000 (1 / 2), sample_image ''C'' 1000 (3 / 4)]
     \<noteq> [sample_image ''C'' 1000 (3 / 4), sample_image ''B'' 1000 (1 / 2), sample_image ''A'' 1000 (1 / 4)]"
  by (simp add: run_three_posts gallery_def sortedImages_def json_response_def sample_image_def)

section \<open>What the operations do to the store\<close>

lemma generate_cases:
  assumes "generate cfg rt env req_body s = (res, s', effs)"
  shows "s' = s \<and> (\<exists>effs'. generate_image cfg rt env req_body = Answered res effs')
       \<or> (\<exists>p b64 buf.
             res = png_response buf \<and> truthy p
           \<and> generatedImages s' = generatedImages s @
                [\<lparr> id' = fresh_id env, prompt = p, imageData = b64_encode rt buf, timestamp = now env \<rparr>]
           \<and> (gallery_file s' = gallery_file s \<or> gallery_file s' = Some (generatedImages s')))"
proof (cases "generate_image cfg rt env req_body")
  case (Answered r e)
  with assms show ?thesis by (simp add: generate_def)
next
  case (Decoded p b64 buf e)
  from generate_image_Decoded_truthy [OF Decoded] have "truthy p" .
  with assms Decoded show ?thesis
    by (auto simp: generate_def Let_def)
qed

lemma generate_p_cases:
  assumes "generate_p cfg rt env req_body table = (res, table', effs)"
  shows "table' = table
       \<or> (\<exists>p b64 buf secure_url public_id.
             res = png_response buf \<and> truthy p
           \<and> upload_result env = Some (secure_url, public_id)
           \<and> number_to_string rt (Finite (fresh_id env)) \<notin> row_id ` set table
           \<and> table' = table @
                [\<lparr> row_id = number_to_string rt (Finite (fresh_id env)), row_prompt = pg_text rt p,
                   cloudinary_url = secure_url, cloudinary_public_id = public_id,
                   row_timestamp = db_now env \<rparr>])"
proof (cases "generate_image cfg rt env req_body")
  case (Answered r e)
  with assms show ?thesis by (simp add: generate_p_def)
next
  case (Decoded p b64 buf e)
  from generate_image_Decoded_truthy [OF Decoded] have "truthy p" .
  with assms Decoded show ?thesis
    by (auto simp: generate_p_def Let_def insert_row_def split: option.splits if_splits)
qed

lemma handle_appends:
  assumes "handle cfg rt env req s = (res, s', effs)"
  shows "generatedImages s' = generatedImages s
       \<or> (\<exists>b r. req = PostGenerate b \<and> status res = 200 \<and> truthy (prompt r)
             \<and> generatedImages s' = generatedImages s @ [r])"
proof (cases req)
  case (PostGenerate b)
  with assms have "generate cfg rt env b s = (res, s', effs)" by simp
  from generate_cases [OF this] PostGenerate show ?thesis
    by (auto simp: png_response_def)
qed (use assms in auto)

lemma handle_p_appends:
  assumes "handle_p cfg rt env req table = (res, table', effs)"
  shows "table' = table
       \<or> (\<exists>b r. req = PostGenerateP b \<and> status res = 200 \<and> row_id r \<notin> row_id ` set table
             \<and> table' = table @ [r])"
proof (cases req)
  case (PostGenerateP b)
  with assms have "generate_p cfg rt env b table = (res, table', effs)" by simp
  from generate_p_cases [OF this] PostGenerateP show ?thesis
    by (auto simp: png_response_def)
qed (use assms in auto)

lemma handle_reads_only:
  assumes "handle cfg rt env req s = (res, s', effs)" and "\<forall>b. req \<noteq> PostGenerate b"
  shows "s' = s \<and> effs = []"
  using assms by (cases req) auto

lemma handle_p_reads_only:
  assumes "handle_p cfg rt env req table = (res, table', effs)" and "\<forall>b. req \<noteq> PostGenerateP b"
  shows "table' = table \<and> effs = []"
  using assms by (cases req) auto

lemma handle_file:
  assumes "handle cfg rt env req s = (res, s', effs)"
  shows "gallery_file s' = gallery_file s
       \<or> (\<exists>b. req = PostGenerate b) \<and> gallery_file s' = Some (generatedImages s')"
proof (cases req)
  case (PostGenerate b)
  with assms have "generate cfg rt env b s = (res, s', effs)" by simp
  from generate_cases [OF this] PostGenerate show ?thesis
    by auto
qed (use assms in auto)

lemma run_prefix: "prefix (generatedImages s) (generatedImages (run cfg rt reqs s))"
proof (induction reqs arbitrary: s)
  case Nil
  then show ?case by simp
next
  case (Cons a reqs)
  obtain env req where a: "a = (env, req)" by (cases a)
  obtain res s' effs where h: "handle cfg rt env req s = (res, s', effs)"
    by (cases "handle cfg rt env req s")
  from handle_appends [OF h] have "prefix (generatedImages s) (generatedImages s')"
    by auto
  moreover from Cons.IH [of s'] have "prefix (generatedImages s') (generatedImages (run cfg rt reqs s'))" .
  ultimately show ?case
    using a h by (auto intro: prefix_order.trans)
qed

lemma run_p_prefix: "prefix table (run_p cfg rt reqs table)"
proof (induction reqs arbitrary: table)
  case Nil
  then show ?case by simp
next
  case (Cons a reqs)
  obtain env req where a: "a = (env, req)" by (cases a)
  obtain res table' effs where h: "handle_p cfg rt env req table = (res, table', effs)"
    by (cases "handle_p cfg rt env req table")
  from handle_p_appends [OF h] have "prefix table table'"
    by auto
  moreover from Cons.IH [of table'] have "prefix table' (run_p cfg rt reqs table')" .
  ultimately show ?case
    using a h by (auto intro: prefix_order.trans)
qed

text \<open>The primary key: no operation makes two rows share an id.\<close>

lemma run_p_distinct: "distinct (map row_id table) \<Longrightarrow> distinct (map row_id (run_p cfg rt reqs table))"
proof (induction reqs arbitrary: table)
  case Nil
  then show ?case by simp
next
  case (Cons a reqs)
  obtain env req where a: "a = (env, req)" by (cases a)
  obtain res table' effs where h: "handle_p cfg rt env req table = (res, table', effs)"
    by (cases "handle_p cfg rt env req table")
  from handle_p_appends [OF h] Cons.prems have "distinct (map row_id table')"
    by auto
  from Cons.IH [OF this] show ?case
    using a h by simp
qed

text \<open>Every stored prompt is truthy, once every prompt of the initial store is.\<close>

lemma run_prompts_truthy:
  "\<forall>img\<in>set (generatedImages s). truthy (prompt img)
   \<Longrightarrow> \<forall>img\<in>set (generatedImages (run cfg rt reqs s)). truthy (prompt img)"
proof (induction reqs arbitrary: s)
  case Nil
  then show ?case by simp
next
  case (Cons a reqs)
  obtain env req where a: "a = (env, req)" by (cases a)
  obtain res s' effs where h: "handle cfg rt env req s = (res, s', effs)"
    by (cases "handle cfg rt env req s")
  from handle_appends [OF h] Cons.prems have "\<forall>img\<in>set (generatedImages s'). truthy (prompt img)"
    by auto
  from Cons.IH [OF this] show ?case
    using a h by simp
qed

section \<open>C9: records are only appended\<close>

text \<open>
  C9. Over all exposed operations of both servers: an operation either leaves the stored
  records as they are or is a POST /api/generate answered 200 that appends one record
  after them; every operation other than POST /api/generate leaves the whole state as
  it is and makes no outside call, and \<^verbatim>\<open>gallery.json\<close> changes only inside generate,
  to the records then stored; so after any run of operations the records stored before
  it are still there, in place and unchanged, each with the id it was created with:
  nothing is updated and nothing is deleted.
\<close>

theorem records_only_appended:
  "(\<forall>res s' effs. handle cfg rt env req s = (res, s', effs) \<longrightarrow>
       (generatedImages s' = generatedImages s
        \<or> (\<exists>b r. req = PostGenerate b \<and> status res = 200 \<and> generatedImages s' = generatedImages s @ [r]))
     \<and> (gallery_file s' = gallery_file s
        \<or> (\<exists>b. req = PostGenerate b) \<and> gallery_file s' = Some (generatedImages s'))
     \<and> ((\<forall>b. req \<noteq> PostGenerate b) \<longrightarrow> s' = s \<and> effs = []))
   \<and> prefix (generatedImages s) (generatedImages (run cfg rt reqs s))
   \<and> (\<forall>i < length (generatedImages s).
         generatedImages (run cfg rt reqs s) ! i = generatedImages s ! i
       \<and> id' (generatedImages (run cfg rt reqs s) ! i) = id' (generatedImages s ! i))
   \<and> (\<forall>res table' effs. handle_p cfg rt env_p req_p table = (res, table', effs) \<longrightarrow>
       (table' = table \<or> (\<exists>b r. req_p = PostGenerateP b \<and> status res = 200 \<and> table' = table @ [r]))
     \<and> ((\<forall>b. req_p \<noteq> PostGenerateP b) \<longrightarrow> table' = table \<and> effs = []))
   \<and> prefix table (run_p cfg rt reqs_p table)
   \<and> (\<forall>i < length table.
         run_p cfg rt reqs_p table ! i = table ! i
       \<and> row_id (run_p cfg rt reqs_p table ! i) = row_id (table ! i))"
proof (intro conjI allI impI)
  fix res s' effs
  assume h: "handle cfg rt env req s = (res, s', effs)"
  from handle_appends [OF h]
  show "generatedImages s' = generatedImages s
        \<or> (\<exists>b r. req = PostGenerate b \<and> status res = 200 \<and> generatedImages s' = generatedImages s @ [r])"
    by blast
  from handle_file [OF h]
  show "gallery_file s' = gallery_file s
        \<or> (\<exists>b. req = PostGenerate b) \<and> gallery_file s' = Some (generatedImages s')" .
  show "s' = s" and "effs = []" if "\<forall>b. req \<noteq> PostGenerate b"
    using handle_reads_only [OF h that] by simp_all
next
  show p: "prefix (generatedImages s) (generatedImages (run cfg rt reqs s))"
    by (rule run_prefix)
  fix i
  assume "i < length (generatedImages s)"
  with p show same: "generatedImages (run cfg rt reqs s) ! i = generatedImages s ! i"
    by (auto simp: prefix_def nth_append)
  then show "id' (generatedImages (run cfg rt reqs s) ! i) = id' (generatedImages s ! i)"
    by simp
next
  fix res table' effs
  assume h: "handle_p cfg rt env_p req_p table = (res, table', effs)"
  from handle_p_appends [OF h]
  show "table' = table \<or> (\<exists>b r. req_p = PostGenerateP b \<and> status res = 200 \<and> table' = table @ [r])"
    by blast
  show "table' = table" and "effs = []" if "\<forall>b. req_p \<noteq> PostGenerateP b"
    using handle_p_reads_only [OF h that] by simp_all
next
  show p: "prefix table (run_p cfg rt reqs_p table)"
    by (rule run_p_prefix)
  fix i
  assume "i < length table"
  with p show same: "run_p cfg rt reqs_p table ! i = table ! i"
    by (auto simp: prefix_def nth_append)
  then show "row_id (run_p cfg rt reqs_p table ! i) = row_id (table ! i)"
    by simp
qed

theorem records_only_appended_witness:
  "(\<forall>b. GetDownload ''1000'' \<noteq> PostGenerate b)
   \<and> snd (handle sample_cfg sample_rt (mem_world image_data 9000 0) (GetDownload ''1000'')
            (run sample_cfg sample_rt (three_posts 1000 2000 3000) empty_state))
       = (run sample_cfg sample_rt (three_posts 1000 2000 3000) empty_state, [])
   \<and> (2::nat) < length (generatedImages (run sample_cfg sample_rt (three_posts 1000 2000 3000) empty_state))
   \<and> generatedImages (run sample_cfg sample_rt (three_posts 4000 5000 6000)
          (run sample_cfg sample_rt (three_posts 1000 2000 3000) empty_state)) ! 2
       = sample_image ''C'' 3000 (3 / 4)
   \<and> (\<forall>b. GetShareP ''1000'' \<noteq> PostGenerateP b)
   \<and> snd (handle_p sample_cfg sample_rt (pers_world image_data 9000 0) (GetShareP ''1000'')
            (run_p sample_cfg sample_rt (three_posts_p 1000 2000 3000) []))
       = (run_p sample_cfg sample_rt (three_posts_p 1000 2000 3000) [], [])
   \<and> (2::nat) < length (run_p sample_cfg sample_rt (three_posts_p 1000 2000 3000) [])
   \<and> run_p sample_cfg sample_rt (three_posts_p 4000 5000 6000)
          (run_p sample_cfg sample_rt (three_posts_p 1000 2000 3000) []) ! 2
       = sample_row ''C'' 3000"
proof -
  let ?s = "run sample_cfg sample_rt (three_posts 1000 2000 3000) empty_state"
  let ?t = "run_p sample_cfg sample_rt (three_posts_p 1000 2000 3000) []"
  let ?env = "mem_world image_data 9000 0"
  let ?envp = "pers_world image_data 9000 0"
  note r = records_only_appended [of sample_cfg sample_rt ?env "GetDownload ''1000''" ?s
      "three_posts 4000 5000 6000" ?envp "GetShareP ''1000''" ?t "three_posts_p 4000 5000 6000"]
  have reads: "\<forall>b. GetDownload ''1000'' \<noteq> PostGenerate b" "\<forall>b. GetShareP ''1000'' \<noteq> PostGenerateP b"
    by simp_all
  obtain res s' effs where h: "handle sample_cfg sample_rt ?env (GetDownload ''1000'') ?s = (res, s', effs)"
    by (cases "handle sample_cfg sample_rt ?env (GetDownload ''1000'') ?s")
  with r reads have "s' = ?s \<and> effs = []"
    by blast
  with h have mem: "snd (handle sample_cfg sample_rt ?env (GetDownload ''1000'') ?s) = (?s, [])"
    by simp
  obtain resp t' effsp where hp: "handle_p sample_cfg sample_rt ?envp (GetShareP ''1000'') ?t = (resp, t', effsp)"
    by (cases "handle_p sample_cfg sample_rt ?envp (GetShareP ''1000'') ?t")
  with r reads have "t' = ?t \<and> effsp = []"
    by blast
  with hp have pers: "snd (handle_p sample_cfg sample_rt ?envp (GetShareP ''1000'') ?t) = (?t, [])"
    by simp
  have len: "(2::nat) < length (generatedImages ?s)" "(2::nat) < length ?t"
    by (simp_all add: run_three_posts run_three_posts_p)
  with r have "generatedImages (run sample_cfg sample_rt (three_posts 4000 5000 6000) ?s) ! 2
        = generatedImages ?s ! 2"
    and "run_p sample_cfg sample_rt (three_posts_p 4000 5000 6000) ?t ! 2 = ?t ! 2"
    by blast+
  then have kept: "generatedImages (run sample_cfg sample_rt (three_posts 4000 5000 6000) ?s) ! 2
        = sample_image ''C'' 3000 (3 / 4)"
    "run_p sample_cfg sample_rt (three_posts_p 4000 5000 6000) ?t ! 2 = sample_row ''C'' 3000"
    by (simp_all add: run_three_posts run_three_posts_p)
  from reads mem pers len kept show ?thesis
    by blast
qed

section \<open>C5: the properties of a listed record\<close>

lemma keys_of_image_json:
  "prompt img \<noteq> JUndefined \<Longrightarrow>
   keys_of (image_json rt img) = [''id'', ''prompt'', ''imageData'', ''timestamp'']"
  by (simp add: keys_of_def image_json_def)

lemma keys_of_row_json: "keys_of (row_json rt r) = [''id'', ''prompt'', ''imageData'', ''timestamp'']"
  by (simp add: keys_of_def row_json_def)

text \<open>
  C5, as the code has it. Every element of a successful GET /api/gallery response is an
  object with exactly the properties id, prompt, imageData and timestamp, in that
  order: in the in-memory server after any run of operations from a store whose
  records have truthy prompts (as every record that generate writes has), and in the
  persistent server whenever the query succeeds. The image location, inline base64 or
  the storage URL, is the value of \<^verbatim>\<open>imageData\<close>; no property is named
  \<^verbatim>\<open>imageLocation\<close>.
\<close>

theorem gallery_element_fields:
  assumes "\<forall>img\<in>set (generatedImages s). truthy (prompt img)"
  shows "(\<exists>es. gallery rt (run cfg rt reqs s) = \<lparr> status = 200, headers = [], body = JsonBody (JArr es) \<rparr>
            \<and> (\<forall>e\<in>set es. keys_of e = [''id'', ''prompt'', ''imageData'', ''timestamp'']))
       \<and> (db_ok env \<longrightarrow>
            (\<exists>es. gallery_p rt env = \<lparr> status = 200, headers = [], body = JsonBody (JArr es) \<rparr>
              \<and> (\<forall>e\<in>set es. keys_of e = [''id'', ''prompt'', ''imageData'', ''timestamp''])))"
proof (intro conjI impI)
  let ?s = "run cfg rt reqs s"
  from run_prompts_truthy [OF assms, of cfg rt reqs] have "\<forall>img\<in>set (generatedImages ?s). prompt img \<noteq> JUndefined"
    by auto
  then have "\<forall>img\<in>set (sortedImages ?s). prompt img \<noteq> JUndefined"
    by (simp add: sortedImages_def)
  then have "\<forall>e\<in>set (map (image_json rt) (sortedImages ?s)).
      keys_of e = [''id'', ''prompt'', ''imageData'', ''timestamp'']"
    by (auto simp: keys_of_image_json)
  then show "\<exists>es. gallery rt ?s = \<lparr> status = 200, headers = [], body = JsonBody (JArr es) \<rparr>
            \<and> (\<forall>e\<in>set es. keys_of e = [''id'', ''prompt'', ''imageData'', ''timestamp''])"
    by (auto simp: gallery_def json_response_def)
next
  assume "db_ok env"
  then have "gallery_p rt env = \<lparr> status = 200, headers = [],
      body = JsonBody (JArr (map (row_json rt) (select_all env))) \<rparr>"
    by (simp add: gallery_p_def json_response_def)
  moreover have "\<forall>e\<in>set (map (row_json rt) (select_all env)).
      keys_of e = [''id'', ''prompt'', ''imageData'', ''timestamp'']"
    by (auto simp: keys_of_row_json)
  ultimately show "\<exists>es. gallery_p rt env = \<lparr> status = 200, headers = [], body = JsonBody (JArr es) \<rparr>
              \<and> (\<forall>e\<in>set es. keys_of e = [''id'', ''prompt'', ''imageData'', ''timestamp''])"
    by blast
qed

theorem gallery_element_fields_witness:
  "generatedImages empty_state = []
   \<and> db_ok (pers_world image_data 4000 0 \<lparr> select_all := [sample_row ''A'' 1000] \<rparr>)
   \<and> (\<exists>es. gallery sample_rt (run sample_cfg sample_rt (three_posts 1000 2000 3000) empty_state)
              = \<lparr> status = 200, headers = [], body = JsonBody (JArr es) \<rparr>
          \<and> length es = 3
          \<and> (\<forall>e\<in>set es. keys_of e = [''id'', ''prompt'', ''imageData'', ''timestamp'']))
   \<and> (\<exists>es. gallery_p sample_rt (pers_world image_data 4000 0 \<lparr> select_all := [sample_row ''A'' 1000] \<rparr>)
              = \<lparr> status = 200, headers = [], body = JsonBody (JArr es) \<rparr>
          \<and> length es = 1
          \<and> (\<forall>e\<in>set es. keys_of e = [''id'', ''prompt'', ''imageData'', ''timestamp'']))"
proof -
  let ?env = "pers_world image_data 4000 0 \<lparr> select_all := [sample_row ''A'' 1000] \<rparr>"
  let ?s = "run sample_cfg sample_rt (three_posts 1000 2000 3000) empty_state"
  have a: "\<forall>img\<in>set (generatedImages empty_state). truthy (prompt img)"
    by (simp add: empty_state_def)
  have ok: "db_ok ?env"
    by simp
  from gallery_element_fields [OF a, of sample_rt sample_cfg "three_posts 1000 2000 3000" ?env] ok
  obtain es es' where
    g: "gallery sample_rt ?s = \<lparr> status = 200, headers = [], body = JsonBody (JArr es) \<rparr>"
      "\<forall>e\<in>set es. keys_of e = [''id'', ''prompt'', ''imageData'', ''timestamp'']"
    and g': "gallery_p sample_rt ?env = \<lparr> status = 200, headers = [], body = JsonBody (JArr es') \<rparr>"
      "\<forall>e\<in>set es'. keys_of e = [''id'', ''prompt'', ''imageData'', ''timestamp'']"
    by blast
  from g(1) have "es = map (image_json sample_rt) (sortedImages ?s)"
    by (simp add: gallery_def json_response_def)
  then have "length es = length (generatedImages ?s)"
    by (simp add: sortedImages_def)
  then have "length es = 3"
    by (simp add: run_three_posts)
  moreover from g'(1) have "length es' = 1"
    by (auto simp: gallery_p_def json_response_def)
  moreover have "generatedImages empty_state = []"
    by (simp add: empty_state_def)
  ultimately show ?thesis
    using ok g g' by blast
qed

text \<open>
  C5 as stated fails on the name of the third property: the element listed for a
  stored record has \<^verbatim>\<open>imageData\<close> and no \<^verbatim>\<open>imageLocation\<close>, in both servers.
\<close>

theorem gallery_element_fields_counterexample:
  "gallery sample_rt (run sample_cfg sample_rt
      [(mem_world image_data 1000 0, PostGenerate (prompt_body ''A''))] empty_state)
     = \<lparr> status = 200, headers = [],
         body = JsonBody (JArr [image_json sample_rt (sample_image ''A'' 1000 0)]) \<rparr>
   \<and> keys_of (image_json sample_rt (sample_image ''A'' 1000 0))
     = [''id'', ''prompt'', ''imageData'', ''timestamp'']
   \<and> ''imageLocation'' \<notin> set (keys_of (image_json sample_rt (sample_image ''A'' 1000 0)))
   \<and> gallery_p sample_rt (pers_world image_data 4000 0 \<lparr> select_all := [sample_row ''A'' 1000] \<rparr>)
     = \<lparr> status = 200, headers = [],
         body = JsonBody (JArr [row_json sample_rt (sample_row ''A'' 1000)]) \<rparr>
   \<and> keys_of (row_json sample_rt (sample_row ''A'' 1000))
     = [''id'', ''prompt'', ''imageData'', ''timestamp'']
   \<and> ''imageLocation'' \<notin> set (keys_of (row_json sample_rt (sample_row ''A'' 1000)))"
  by (simp add: sample_generate empty_state_def gallery_def sortedImages_def json_response_def
      gallery_p_def keys_of_row_json keys_of_image_json sample_image_def)

section \<open>C8: ids that no record has\<close>

text \<open>
  C8, as the code has it. GET /api/image/:id and GET /api/download/:id answer 404 with
  the error "Image not found" for every id that no stored record has, and records get
  their ids only in generate. In the in-memory server that is every route parameter
  whose numeric value is the id of no record; in the persistent server it is every
  parameter that is the id of no row, provided the query itself succeeds: a query that
  throws is answered 500.
\<close>

theorem unknown_id_not_found:
  "((\<forall>img\<in>set (generatedImages s). to_number rt imageId \<noteq> Finite (id' img)) \<longrightarrow>
      serve_image rt s imageId =
        \<lparr> status = 404, headers = [], body = JsonBody (JObj [(''error'', JStr ''Image not found'')]) \<rparr>
    \<and> download rt s imageId =
        \<lparr> status = 404, headers = [], body = JsonBody (JObj [(''error'', JStr ''Image not found'')]) \<rparr>)
   \<and> (db_ok env \<and> imageId \<notin> row_id ` set table \<longrightarrow>
      serve_image_p env table imageId =
        \<lparr> status = 404, headers = [], body = JsonBody (JObj [(''error'', JStr ''Image not found'')]) \<rparr>
    \<and> download_p env table imageId =
        \<lparr> status = 404, headers = [], body = JsonBody (JObj [(''error'', JStr ''Image not found'')]) \<rparr>)"
proof (intro conjI impI)
  assume "\<forall>img\<in>set (generatedImages s). to_number rt imageId \<noteq> Finite (id' img)"
  then have none: "find_image rt s imageId = None"
    by (simp add: find_image_def find_None_iff)
  then show "serve_image rt s imageId =
        \<lparr> status = 404, headers = [], body = JsonBody (JObj [(''error'', JStr ''Image not found'')]) \<rparr>"
    by (simp add: serve_image_def not_found_def json_response_def error_json_def)
  from none show "download rt s imageId =
        \<lparr> status = 404, headers = [], body = JsonBody (JObj [(''error'', JStr ''Image not found'')]) \<rparr>"
    by (simp add: download_def not_found_def json_response_def error_json_def)
next
  assume h: "db_ok env \<and> imageId \<notin> row_id ` set table"
  then have none: "select_by_id table imageId = None"
    by (auto simp: select_by_id_def find_None_iff)
  with h show "serve_image_p env table imageId =
        \<lparr> status = 404, headers = [], body = JsonBody (JObj [(''error'', JStr ''Image not found'')]) \<rparr>"
    by (simp add: serve_image_p_def not_found_def json_response_def error_json_def)
  from none h show "download_p env table imageId =
        \<lparr> status = 404, headers = [], body = JsonBody (JObj [(''error'', JStr ''Image not found'')]) \<rparr>"
    by (simp add: download_p_def not_found_def json_response_def error_json_def)
qed

theorem unknown_id_not_found_witness:
  "map id' (generatedImages (run sample_cfg sample_rt (three_posts 1000 2000 3000) empty_state))
       = [1000 + 1 / 4, 2000 + 1 / 2, 3000 + 3 / 4]
   \<and> to_number sample_rt ''7'' = Finite 7
   \<and> status (serve_image sample_rt (run sample_cfg sample_rt (three_posts 1000 2000 3000) empty_state) ''7'') = 404
   \<and> status (download sample_rt (run sample_cfg sample_rt (three_posts 1000 2000 3000) empty_state) ''7'') = 404
   \<and> db_ok (pers_world image_data 9000 0)
   \<and> ''7'' \<notin> row_id ` set (run_p sample_cfg sample_rt (three_posts_p 1000 2000 3000) [])
   \<and> status (serve_image_p (pers_world image_data 9000 0)
        (run_p sample_cfg sample_rt (three_posts_p 1000 2000 3000) []) ''7'') = 404
   \<and> status (download_p (pers_world image_data 9000 0)
        (run_p sample_cfg sample_rt (three_posts_p 1000 2000 3000) []) ''7'') = 404"
proof -
  let ?s = "run sample_cfg sample_rt (three_posts 1000 2000 3000) empty_state"
  let ?t = "run_p sample_cfg sample_rt (three_posts_p 1000 2000 3000) []"
  let ?env = "pers_world image_data 9000 0"
  have a: "\<forall>img\<in>set (generatedImages ?s). to_number sample_rt ''7'' \<noteq> Finite (id' img)"
    by (simp add: run_three_posts sample_image_def)
  have b: "db_ok ?env" and c: "''7'' \<notin> row_id ` set ?t"
    by (simp_all add: run_three_posts_p sample_row_def)
  from unknown_id_not_found [of ?s sample_rt "''7''" ?env ?t] a b c
  have "serve_image sample_rt ?s ''7'' =
        \<lparr> status = 404, headers = [], body = JsonBody (JObj [(''error'', JStr ''Image not found'')]) \<rparr>"
    and "download sample_rt ?s ''7'' =
        \<lparr> status = 404, headers = [], body = JsonBody (JObj [(''error'', JStr ''Image not found'')]) \<rparr>"
    and "serve_image_p ?env ?t ''7'' =
        \<lparr> status = 404, headers = [], body = JsonBody (JObj [(''error'', JStr ''Image not found'')]) \<rparr>"
    and "download_p ?env ?t ''7'' =
        \<lparr> status = 404, headers = [], body = JsonBody (JObj [(''error'', JStr ''Image not found'')]) \<rparr>"
    by blast+
  moreover have "map id' (generatedImages ?s) = [1000 + 1 / 4, 2000 + 1 / 2, 3000 + 3 / 4]" and "to_number sample_rt ''7'' = Finite 7"
    by (simp_all add: run_three_posts sample_image_def)
  ultimately show ?thesis
    using b c by simp
qed

text \<open>
  C8 as stated fails on the persistent server when the query throws: with no row at
  all, so that no id was ever assigned, both handlers answer 500.
\<close>

theorem unknown_id_not_found_counterexample:
  "''7'' \<notin> row_id ` set []
   \<and> serve_image_p (pers_world image_data 9000 0 \<lparr> db_ok := False \<rparr>) [] ''7'' =
        \<lparr> status = 500, headers = [], body = JsonBody (JObj [(''error'', JStr ''Database error'')]) \<rparr>
   \<and> download_p (pers_world image_data 9000 0 \<lparr> db_ok := False \<rparr>) [] ''7'' =
        \<lparr> status = 500, headers = [], body = JsonBody (JObj [(''error'', JStr ''Database error'')]) \<rparr>"
  by (simp add: serve_image_p_def download_p_def database_error_def json_response_def error_json_def)

section \<open>C6: the image round trip\<close>

lemma find_first: "P r \<Longrightarrow> \<forall>x\<in>set xs. \<not> P x \<Longrightarrow> find P (xs @ r # ys) = Some r"
  by (induction xs) auto

text \<open>
  C6, as the code has it. In-memory server: let a POST /api/generate store the record
  \<open>r\<close>, whose id no record stored before it has, and let any operations follow; then
  GET /api/image/:id with a parameter whose numeric value is the id of \<open>r\<close> answers what
  that generate answered, status, content type and bytes, provided decoding the base64
  text that \<^verbatim>\<open>toString('base64')\<close> wrote for those bytes gives them back. Persistent
  server: let a POST /api/generate insert the row \<open>r\<close> and any operations follow; then
  GET /api/image/:id with the id of \<open>r\<close> answers 200 with the bytes that a GET of the
  row's storage URL returns, which are the bytes of the generate response when the
  object store serves them there.
\<close>

theorem image_round_trip:
  "(generate cfg rt env req_body s = (res, s1, effs) \<and> generatedImages s1 = generatedImages s @ [r]
      \<and> (\<forall>img\<in>set (generatedImages s). id' img \<noteq> id' r)
      \<and> to_number rt imageId = Finite (id' r)
      \<and> (\<forall>bytes. body res = BufferBody bytes \<longrightarrow> b64_decode rt (b64_encode rt bytes) = bytes)
    \<longrightarrow> serve_image rt (run cfg rt reqs s1) imageId = res
      \<and> status res = 200 \<and> (\<exists>bytes. body res = BufferBody bytes))
   \<and> (generate_p cfg rt env_p req_body table = (res_p, table1, effs_p) \<and> table1 = table @ [row_p]
      \<and> db_ok env2 \<and> http_get env2 (cloudinary_url row_p) = GetOk (Some served)
      \<and> body res_p = BufferBody served
    \<longrightarrow> body (serve_image_p env2 (run_p cfg rt reqs_p table1) (row_id row_p)) = body res_p
      \<and> status (serve_image_p env2 (run_p cfg rt reqs_p table1) (row_id row_p)) = 200)"
proof (intro conjI impI)
  assume h: "generate cfg rt env req_body s = (res, s1, effs) \<and> generatedImages s1 = generatedImages s @ [r]
      \<and> (\<forall>img\<in>set (generatedImages s). id' img \<noteq> id' r)
      \<and> to_number rt imageId = Finite (id' r)
      \<and> (\<forall>bytes. body res = BufferBody bytes \<longrightarrow> b64_decode rt (b64_encode rt bytes) = bytes)"
  then have gen: "generate cfg rt env req_body s = (res, s1, effs)"
    and new: "generatedImages s1 = generatedImages s @ [r]" by simp_all
  from generate_cases [OF gen] new obtain buf where
    res: "res = png_response buf" and r: "imageData r = b64_encode rt buf"
    by auto
  from res h have codec: "b64_decode rt (b64_encode rt buf) = buf"
    by (simp add: png_response_def)
  from run_prefix [of s1 cfg rt reqs] new obtain zs where
    store: "generatedImages (run cfg rt reqs s1) = generatedImages s @ r # zs"
    by (auto simp: prefix_def)
  from h have "find_image rt (run cfg rt reqs s1) imageId = Some r"
    unfolding find_image_def store by (intro find_first) auto
  then show "serve_image rt (run cfg rt reqs s1) imageId = res"
    by (simp add: serve_image_def r codec res)
  from res show "status res = 200" and "\<exists>bytes. body res = BufferBody bytes"
    by (simp_all add: png_response_def)
next
  assume h: "generate_p cfg rt env_p req_body table = (res_p, table1, effs_p) \<and> table1 = table @ [row_p]
      \<and> db_ok env2 \<and> http_get env2 (cloudinary_url row_p) = GetOk (Some served)
      \<and> body res_p = BufferBody served"
  then have gen: "generate_p cfg rt env_p req_body table = (res_p, table1, effs_p)"
    and new: "table1 = table @ [row_p]" by simp_all
  from generate_p_cases [OF gen] new have fresh: "row_id row_p \<notin> row_id ` set table"
    by auto
  from run_p_prefix [of table1 cfg rt reqs_p] new obtain zs where
    store: "run_p cfg rt reqs_p table1 = table @ row_p # zs"
    by (auto simp: prefix_def)
  from fresh have found: "select_by_id (run_p cfg rt reqs_p table1) (row_id row_p) = Some row_p"
    unfolding select_by_id_def store by (intro find_first) (auto simp: image_iff)
  with h show "body (serve_image_p env2 (run_p cfg rt reqs_p table1) (row_id row_p)) = body res_p"
    and "status (serve_image_p env2 (run_p cfg rt reqs_p table1) (row_id row_p)) = 200"
    by (simp_all add: serve_image_p_def)
qed

lemma sample_generate_payload:
  assumes "p \<noteq> []" and "b64 \<noteq> []"
  shows "generate sample_cfg sample_rt (mem_world (upstream_data ''inlineData'' b64) t r) (prompt_body p) s =
     (png_response (base64_decode b64),
      \<lparr> generatedImages = generatedImages s @
           [\<lparr> id' = of_int t + r, prompt = JStr p, imageData = base64_encode (base64_decode b64),
              timestamp = t \<rparr>],
        gallery_file = Some (generatedImages s @
           [\<lparr> id' = of_int t + r, prompt = JStr p, imageData = base64_encode (base64_decode b64),
              timestamp = t \<rparr>]) \<rparr>,
      [UpstreamFetch (generate_url sample_cfg) ''k'' (requestBody sample_rt (JStr p) ''PNG''),
       GalleryFileWrite])"
  using assms generate_success [of "prompt_body p" "JStr p" sample_cfg
      "mem_world (upstream_data ''inlineData'' b64) t r" "''PNG''" "upstream_data ''inlineData'' b64" b64 sample_rt s]
  by simp

theorem image_round_trip_witness:
  "generate sample_cfg sample_rt (mem_world image_data 1000 0) (prompt_body ''A'') empty_state
     = (png_response ''ABC'',
        \<lparr> generatedImages = [sample_image ''A'' 1000 0], gallery_file = Some [sample_image ''A'' 1000 0] \<rparr>,
        [UpstreamFetch (generate_url sample_cfg) ''k'' (requestBody sample_rt (JStr ''A'') ''PNG''),
         GalleryFileWrite])
   \<and> generatedImages empty_state = []
   \<and> to_number sample_rt ''1000'' = Finite (id' (sample_image ''A'' 1000 0))
   \<and> (\<forall>bytes. b64_decode sample_rt (b64_encode sample_rt bytes) = bytes)
   \<and> serve_image sample_rt
        (run sample_cfg sample_rt (three_posts 2000 3000 4000)
           \<lparr> generatedImages = [sample_image ''A'' 1000 0], gallery_file = Some [sample_image ''A'' 1000 0] \<rparr>)
        ''1000''
     = \<lparr> status = 200, headers = [(''Content-Type'', ''image/png'')], body = BufferBody ''ABC'' \<rparr>
   \<and> generate_p sample_cfg sample_rt (pers_world image_data 1000 0) (prompt_body ''A'') []
     = (png_response ''ABC'', [sample_row ''A'' 1000],
        [UpstreamFetch (generate_url sample_cfg) ''k'' (requestBody sample_rt (JStr ''A'') ''PNG''),
         CloudinaryUpload ''data:image/png;base64,QUJD'' ''degenify/1000''])
   \<and> db_ok (serving_world ''https://res.cloudinary.com/demo/degenify/1000.png'' ''ABC'')
   \<and> http_get (serving_world ''https://res.cloudinary.com/demo/degenify/1000.png'' ''ABC'')
        (cloudinary_url (sample_row ''A'' 1000)) = GetOk (Some ''ABC'')
   \<and> body (serve_image_p (serving_world ''https://res.cloudinary.com/demo/degenify/1000.png'' ''ABC'')
        (run_p sample_cfg sample_rt (three_posts_p 2000 3000 4000) [sample_row ''A'' 1000]) ''1000'')
     = BufferBody ''ABC''
   \<and> status (serve_image_p (serving_world ''https://res.cloudinary.com/demo/degenify/1000.png'' ''ABC'')
        (run_p sample_cfg sample_rt (three_posts_p 2000 3000 4000) [sample_row ''A'' 1000]) ''1000'')
     = 200"
proof -
  let ?s1 = "\<lparr> generatedImages = [sample_image ''A'' 1000 0], gallery_file = Some [sample_image ''A'' 1000 0] \<rparr>"
  let ?effs = "[UpstreamFetch (generate_url sample_cfg) ''k'' (requestBody sample_rt (JStr ''A'') ''PNG''),
         GalleryFileWrite]"
  let ?effs_p = "[UpstreamFetch (generate_url sample_cfg) ''k'' (requestBody sample_rt (JStr ''A'') ''PNG''),
         CloudinaryUpload ''data:image/png;base64,QUJD'' ''degenify/1000'']"
  let ?w = "serving_world ''https://res.cloudinary.com/demo/degenify/1000.png'' ''ABC''"
  have gen: "generate sample_cfg sample_rt (mem_world image_data 1000 0) (prompt_body ''A'') empty_state
     = (png_response ''ABC'', ?s1, ?effs)"
    by (simp add: sample_generate empty_state_def)
  have new: "generatedImages ?s1 = generatedImages empty_state @ [sample_image ''A'' 1000 0]"
    and none: "generatedImages empty_state = []"
    by (simp_all add: empty_state_def)
  have fresh: "\<forall>img\<in>set (generatedImages empty_state). id' img \<noteq> id' (sample_image ''A'' 1000 0)"
    by (simp add: empty_state_def)
  have names: "to_number sample_rt ''1000'' = Finite (id' (sample_image ''A'' 1000 0))"
    by (simp add: sample_image_def)
  have codec: "\<forall>bytes. b64_decode sample_rt (b64_encode sample_rt bytes) = bytes"
    by (simp add: base64_round_trip)
  then have codec': "\<forall>bytes. body (png_response ''ABC'') = BufferBody bytes
      \<longrightarrow> b64_decode sample_rt (b64_encode sample_rt bytes) = bytes"
    by simp
  have gen_p: "generate_p sample_cfg sample_rt (pers_world image_data 1000 0) (prompt_body ''A'') []
     = (png_response ''ABC'', [sample_row ''A'' 1000], ?effs_p)"
    by (simp add: sample_generate_p)
  have ok: "db_ok ?w" and served: "http_get ?w (cloudinary_url (sample_row ''A'' 1000)) = GetOk (Some ''ABC'')"
    and b: "body (png_response ''ABC'') = BufferBody ''ABC''"
    and i: "row_id (sample_row ''A'' 1000) = ''1000''"
    by (simp_all add: serving_world_def pers_world_def sample_row_def png_response_def)
  note rt = image_round_trip [of sample_cfg sample_rt "mem_world image_data 1000 0" "prompt_body ''A''"
      empty_state "png_response ''ABC''" ?s1 ?effs "sample_image ''A'' 1000 0" "''1000''"
      "three_posts 2000 3000 4000"
      "pers_world image_data 1000 0" "[]" "png_response ''ABC''" "[sample_row ''A'' 1000]" ?effs_p
      "sample_row ''A'' 1000" ?w "''ABC''" "three_posts_p 2000 3000 4000"]
  from rt gen new fresh names codec'
  have "serve_image sample_rt (run sample_cfg sample_rt (three_posts 2000 3000 4000) ?s1) ''1000''
      = png_response ''ABC''"
    by blast
  moreover from rt gen_p ok served b
  have "body (serve_image_p ?w (run_p sample_cfg sample_rt (three_posts_p 2000 3000 4000)
            [sample_row ''A'' 1000]) (row_id (sample_row ''A'' 1000))) = body (png_response ''ABC'')"
    and "status (serve_image_p ?w (run_p sample_cfg sample_rt (three_posts_p 2000 3000 4000)
            [sample_row ''A'' 1000]) (row_id (sample_row ''A'' 1000))) = 200"
    by simp_all
  ultimately show ?thesis
    using gen none names codec gen_p ok served by (simp add: i b png_response_def)
qed

text \<open>
  C6 as stated fails in the in-memory server when two records get the same id: the
  lookup takes the first of them, so the image served for the id of the second record
  is the image of the first.
\<close>

theorem image_round_trip_counterexample:
  "body (fst (handle sample_cfg sample_rt (fst post_B) (snd post_B)
                (run sample_cfg sample_rt [post_A] empty_state))) = BufferBody ''B''
   \<and> map id' (generatedImages (run sample_cfg sample_rt [post_A, post_B] empty_state)) = [1000, 1000]
   \<and> map prompt (generatedImages (run sample_cfg sample_rt [post_A, post_B] empty_state))
        = [JStr ''A'', JStr ''B'']
   \<and> to_number sample_rt ''1000'' = Finite 1000
   \<and> body (serve_image sample_rt (run sample_cfg sample_rt [post_A, post_B] empty_state) ''1000'')
        = BufferBody ''A''"
  by (simp add: post_A_def post_B_def sample_generate_payload empty_state_def png_response_def
      serve_image_def find_image_def)

section \<open>C7: the prompt in the share page\<close>

text \<open>The static text around the prompt, in both versions of the page.\<close>

lemma share_static_10_ends:
  "share_static_10 = take 540 share_static_10 @ ''<p class=\"prompt-text\">''"
proof -
  have "drop 540 share_static_10 = ''<p class=\"prompt-text\">''"
    by (simp add: share_static_10_def)
  then show ?thesis
    by (metis append_take_drop_id)
qed

lemma share_static_11_starts: "share_static_11 = ''</p>'' @ drop 4 share_static_11"
proof -
  have "take 4 share_static_11 = ''</p>''"
    by (simp add: share_static_11_def)
  then show ?thesis
    by (metis append_take_drop_id)
qed

lemma share_v1_static_5_ends:
  "share_v1_static_5 = take 797 share_v1_static_5 @ ''<strong>Prompt:</strong> ''"
proof -
  have "drop 797 share_v1_static_5 = ''<strong>Prompt:</strong> ''"
    by (simp add: share_v1_static_5_def)
  then show ?thesis
    by (metis append_take_drop_id)
qed

lemma share_v1_static_6_starts:
  "share_v1_static_6 = ''\<newline>    </div>'' @ drop 11 share_v1_static_6"
proof -
  have "take 11 share_v1_static_6 = ''\<newline>    </div>''"
    by (simp add: share_v1_static_6_def)
  then show ?thesis
    by (metis append_take_drop_id)
qed

lemma share_html_slot:
  "\<exists>front back. \<forall>t. share_html protocol host imageId cloudinaryUrl imageUrl t
      = front @ ''<p class=\"prompt-text\">'' @ t @ ''</p>'' @ back"
proof -
  obtain pre where pre: "\<forall>t. share_html protocol host imageId cloudinaryUrl imageUrl t
      = pre @ share_static_10 @ t @ share_static_11"
    unfolding share_html_def by (metis append.assoc)
  have "\<forall>t. share_html protocol host imageId cloudinaryUrl imageUrl t
      = (pre @ take 540 share_static_10) @ ''<p class=\"prompt-text\">'' @ t @ ''</p>''
          @ drop 4 share_static_11"
  proof
    fix t
    have "pre @ share_static_10 @ t @ share_static_11
        = pre @ (take 540 share_static_10 @ ''<p class=\"prompt-text\">'') @ t
            @ (''</p>'' @ drop 4 share_static_11)"
      using share_static_10_ends share_static_11_starts by metis
    with pre show "share_html protocol host imageId cloudinaryUrl imageUrl t
      = (pre @ take 540 share_static_10) @ ''<p class=\"prompt-text\">'' @ t @ ''</p>''
          @ drop 4 share_static_11"
      by (simp only: append.assoc)
  qed
  then show ?thesis by blast
qed

lemma share_v1_html_slot:
  "\<exists>front back. \<forall>t. share_v1_html protocol host imageId imageUrl t
      = front @ ''<strong>Prompt:</strong> '' @ t @ ''\<newline>    </div>'' @ back"
proof -
  obtain pre post where pre: "\<forall>t. share_v1_html protocol host imageId imageUrl t
      = pre @ share_v1_static_5 @ t @ share_v1_static_6 @ post"
    unfolding share_v1_html_def by (metis append.assoc)
  have "\<forall>t. share_v1_html protocol host imageId imageUrl t
      = (pre @ take 797 share_v1_static_5) @ ''<strong>Prompt:</strong> '' @ t @ ''\<newline>    </div>''
          @ (drop 11 share_v1_static_6 @ post)"
  proof
    fix t
    have "pre @ share_v1_static_5 @ t @ share_v1_static_6 @ post
        = pre @ (take 797 share_v1_static_5 @ ''<strong>Prompt:</strong> '') @ t
            @ (''\<newline>    </div>'' @ drop 11 share_v1_static_6) @ post"
      using share_v1_static_5_ends share_v1_static_6_starts by metis
    with pre show "share_v1_html protocol host imageId imageUrl t
      = (pre @ take 797 share_v1_static_5) @ ''<strong>Prompt:</strong> '' @ t @ ''\<newline>    </div>''
          @ (drop 11 share_v1_static_6 @ post)"
      by (simp only: append.assoc)
  qed
  then show ?thesis by blast
qed

text \<open>
  C7, as the code has it. For every stored record, GET /api/share/:id answers 200 with an
  HTML page into which the record's prompt is interpolated as it is stored, with no
  escaping: the page is fixed text, then the opening tag of the prompt element, then
  the prompt, then the closing text, and neither the text before nor the text after
  depends on the prompt (\<^verbatim>\<open><p class="prompt-text">\<close> and \<^verbatim>\<open></p>\<close> in the current page,
  \<^verbatim>\<open><strong>Prompt:</strong>\<close> and the end of the \<^verbatim>\<open>div\<close> in the earlier one). A prompt
  containing \<^verbatim>\<open><script>\<close> is therefore in the page as a \<^verbatim>\<open><script>\<close> tag.
\<close>

theorem share_page_prompt_verbatim:
  "(db_ok env \<and> select_by_id table imageId = Some r \<longrightarrow>
      share rt env table imageId =
        \<lparr> status = 200, headers = [(''Content-Type'', ''text/html'')],
          body = TextBody
            (share_html (req_protocol env) (req_host env) imageId
               (cloudinary_url r @ ''?t='' @ number_to_string rt (Finite (of_int (date_now env))))
               (req_protocol env @ ''://'' @ req_host env @ ''/api/image/'' @ imageId)
               (row_prompt r)) \<rparr>
    \<and> share_v1 env table imageId =
        \<lparr> status = 200, headers = [(''Content-Type'', ''text/html'')],
          body = TextBody
            (share_v1_html (req_protocol env) (req_host env) imageId
               (req_protocol env @ ''://'' @ req_host env @ ''/api/image/'' @ imageId)
               (row_prompt r)) \<rparr>)
   \<and> (\<exists>front back. \<forall>t. share_html protocol host imageId cloudinaryUrl imageUrl t
          = front @ ''<p class=\"prompt-text\">'' @ t @ ''</p>'' @ back)
   \<and> (\<exists>front back. \<forall>t. share_v1_html protocol host imageId imageUrl t
          = front @ ''<strong>Prompt:</strong> '' @ t @ ''\<newline>    </div>'' @ back)"
proof (intro conjI impI)
  assume h: "db_ok env \<and> select_by_id table imageId = Some r"
  then show "share rt env table imageId =
        \<lparr> status = 200, headers = [(''Content-Type'', ''text/html'')],
          body = TextBody
            (share_html (req_protocol env) (req_host env) imageId
               (cloudinary_url r @ ''?t='' @ number_to_string rt (Finite (of_int (date_now env))))
               (req_protocol env @ ''://'' @ req_host env @ ''/api/image/'' @ imageId)
               (row_prompt r)) \<rparr>"
    by (simp add: share_def html_response_def Let_def)
  from h show "share_v1 env table imageId =
        \<lparr> status = 200, headers = [(''Content-Type'', ''text/html'')],
          body = TextBody
            (share_v1_html (req_protocol env) (req_host env) imageId
               (req_protocol env @ ''://'' @ req_host env @ ''/api/image/'' @ imageId)
               (row_prompt r)) \<rparr>"
    by (simp add: share_v1_def html_response_def Let_def)
next
  show "\<exists>front back. \<forall>t. share_html protocol host imageId cloudinaryUrl imageUrl t
          = front @ ''<p class=\"prompt-text\">'' @ t @ ''</p>'' @ back"
    by (rule share_html_slot)
  show "\<exists>front back. \<forall>t. share_v1_html protocol host imageId imageUrl t
          = front @ ''<strong>Prompt:</strong> '' @ t @ ''\<newline>    </div>'' @ back"
    by (rule share_v1_html_slot)
qed

lemma select_script_row [simp]: "select_by_id [script_row] ''1000'' = Some script_row"
  by (simp add: select_by_id_def script_row_def sample_row_def)

lemma script_row_fields [simp]:
  "row_prompt script_row = ''<script>alert(1)</script>''"
  "cloudinary_url script_row = ''https://res.cloudinary.com/demo/degenify/1000.png''"
  by (simp_all add: script_row_def sample_row_def)

theorem share_page_prompt_verbatim_witness:
  "db_ok (pers_world image_data 9000 0) \<and> select_by_id [script_row] ''1000'' = Some script_row
   \<and> share sample_rt (pers_world image_data 9000 0) [script_row] ''1000'' =
        \<lparr> status = 200, headers = [(''Content-Type'', ''text/html'')],
          body = TextBody
            (share_html ''https'' ''degenify.example'' ''1000''
               ''https://res.cloudinary.com/demo/degenify/1000.png?t=9000''
               ''https://degenify.example/api/image/1000'' ''<script>alert(1)</script>'') \<rparr>
   \<and> share_v1 (pers_world image_data 9000 0) [script_row] ''1000'' =
        \<lparr> status = 200, headers = [(''Content-Type'', ''text/html'')],
          body = TextBody
            (share_v1_html ''https'' ''degenify.example'' ''1000''
               ''https://degenify.example/api/image/1000'' ''<script>alert(1)</script>'') \<rparr>"
proof -
  have ok: "db_ok (pers_world image_data 9000 0)"
    and found: "select_by_id [script_row] ''1000'' = Some script_row"
    by simp_all
  note page = share_page_prompt_verbatim [where env = "pers_world image_data 9000 0"
      and table = "[script_row]" and imageId = "''1000''" and r = script_row and rt = sample_rt,
      THEN conjunct1, THEN mp, OF conjI [OF ok found]]
  from page
  have "share sample_rt (pers_world image_data 9000 0) [script_row] ''1000'' =
        \<lparr> status = 200, headers = [(''Content-Type'', ''text/html'')],
          body = TextBody
            (share_html (req_protocol (pers_world image_data 9000 0)) (req_host (pers_world image_data 9000 0)) ''1000''
               (cloudinary_url script_row @ ''?t='' @
                  number_to_string sample_rt (Finite (of_int (date_now (pers_world image_data 9000 0)))))
               (req_protocol (pers_world image_data 9000 0) @ ''://'' @ req_host (pers_world image_data 9000 0)
                  @ ''/api/image/'' @ ''1000'')
               (row_prompt script_row)) \<rparr>"
    and "share_v1 (pers_world image_data 9000 0) [script_row] ''1000'' =
        \<lparr> status = 200, headers = [(''Content-Type'', ''text/html'')],
          body = TextBody
            (share_v1_html (req_protocol (pers_world image_data 9000 0)) (req_host (pers_world image_data 9000 0)) ''1000''
               (req_protocol (pers_world image_data 9000 0) @ ''://'' @ req_host (pers_world image_data 9000 0)
                  @ ''/api/image/'' @ ''1000'')
               (row_prompt script_row)) \<rparr>"
    by (rule conjunct1, rule conjunct2)
  with ok found show ?thesis
    by simp
qed

text \<open>
  C7 as stated fails: the page of a record whose prompt is a script element holds that
  element, unescaped, as the content of the prompt element, in both versions.
\<close>

theorem share_page_prompt_verbatim_counterexample:
  "sublist ''<script>'' (row_prompt script_row)
   \<and> body (share sample_rt (pers_world image_data 9000 0) [script_row] ''1000'') =
        TextBody (share_html ''https'' ''degenify.example'' ''1000''
               ''https://res.cloudinary.com/demo/degenify/1000.png?t=9000''
               ''https://degenify.example/api/image/1000'' ''<script>alert(1)</script>'')
   \<and> sublist ''<p class=\"prompt-text\"><script>alert(1)</script></p>''
        (share_html ''https'' ''degenify.example'' ''1000''
               ''https://res.cloudinary.com/demo/degenify/1000.png?t=9000''
               ''https://degenify.example/api/image/1000'' ''<script>alert(1)</script>'')
   \<and> body (share_v1 (pers_world image_data 9000 0) [script_row] ''1000'') =
        TextBody (share_v1_html ''https'' ''degenify.example'' ''1000''
               ''https://degenify.example/api/image/1000'' ''<script>alert(1)</script>'')
   \<and> sublist ''<strong>Prompt:</strong> <script>alert(1)</script>''
        (share_v1_html ''https'' ''degenify.example'' ''1000''
               ''https://degenify.example/api/image/1000'' ''<script>alert(1)</script>'')"
proof -
  have "''<script>alert(1)</script>'' = [] @ ''<script>'' @ ''alert(1)</script>''"
    by simp
  then have a: "sublist ''<script>'' (row_prompt script_row)"
    unfolding sublist_def script_row_fields by blast
  obtain before after where "share_html ''https'' ''degenify.example'' ''1000''
               ''https://res.cloudinary.com/demo/degenify/1000.png?t=9000''
               ''https://degenify.example/api/image/1000'' ''<script>alert(1)</script>''
      = before @ ''<p class=\"prompt-text\">'' @ ''<script>alert(1)</script>'' @ ''</p>'' @ after"
    using share_html_slot by blast
  then have "share_html ''https'' ''degenify.example'' ''1000''
               ''https://res.cloudinary.com/demo/degenify/1000.png?t=9000''
               ''https://degenify.example/api/image/1000'' ''<script>alert(1)</script>''
      = before @ ''<p class=\"prompt-text\"><script>alert(1)</script></p>'' @ after"
    by simp
  then have b: "sublist ''<p class=\"prompt-text\"><script>alert(1)</script></p>''
        (share_html ''https'' ''degenify.example'' ''1000''
               ''https://res.cloudinary.com/demo/degenify/1000.png?t=9000''
               ''https://degenify.example/api/image/1000'' ''<script>alert(1)</script>'')"
    unfolding sublist_def by blast
  obtain before' after' where "share_v1_html ''https'' ''degenify.example'' ''1000''
               ''https://degenify.example/api/image/1000'' ''<script>alert(1)</script>''
      = before' @ ''<strong>Prompt:</strong> '' @ ''<script>alert(1)</script>'' @ ''\<newline>    </div>'' @ after'"
    using share_v1_html_slot by blast
  then have "share_v1_html ''https'' ''degenify.example'' ''1000''
               ''https://degenify.example/api/image/1000'' ''<script>alert(1)</script>''
      = before' @ ''<strong>Prompt:</strong> <script>alert(1)</script>'' @ (''\<newline>    </div>'' @ after')"
    by simp
  then have c: "sublist ''<strong>Prompt:</strong> <script>alert(1)</script>''
        (share_v1_html ''https'' ''degenify.example'' ''1000''
               ''https://degenify.example/api/image/1000'' ''<script>alert(1)</script>'')"
    unfolding sublist_def by blast
  have d: "body (share sample_rt (pers_world image_data 9000 0) [script_row] ''1000'') =
        TextBody (share_html ''https'' ''degenify.example'' ''1000''
               ''https://res.cloudinary.com/demo/degenify/1000.png?t=9000''
               ''https://degenify.example/api/image/1000'' ''<script>alert(1)</script>'')"
    and e: "body (share_v1 (pers_world image_data 9000 0) [script_row] ''1000'') =
        TextBody (share_v1_html ''https'' ''degenify.example'' ''1000''
               ''https://degenify.example/api/image/1000'' ''<script>alert(1)</script>'')"
    by (simp_all add: share_def share_v1_def html_response_def Let_def)
  from a b c d e show ?thesis
    by blast
qed

end
